theory Spec2Isabelle
  imports Complex_Main
begin

section \<open>Task intelligence heuristics of the AI controller\<close>

text \<open>
  A shallow embedding of \<^verbatim>\<open>src/controllers/aiController.ts\<close>: the four private helpers
  \<^verbatim>\<open>calculatePrioritySuggestion\<close>, \<^verbatim>\<open>calculateTimeEstimation\<close>,
  \<^verbatim>\<open>calculateAssigneeSuggestions\<close> and \<^verbatim>\<open>generateTaskBreakdown\<close>, and the four request
  handlers that call them and insert the audit row.

  Conventions of the model.
  \<^item> A JavaScript string is a \<open>string\<close>; \<^verbatim>\<open>toLowerCase\<close> is modelled on the letters
    \<open>A\<close> to \<open>Z\<close>, every other character is left as it is.
  \<^item> An optional string argument is a \<open>string option\<close>, \<open>None\<close> being \<^verbatim>\<open>undefined\<close>.
  \<^item> Integer-valued scores are \<open>int\<close>. Hour quantities are \<open>real\<close>: the decimal factors
    of the source are read as exact rationals, not as IEEE doubles.
  \<^item> \<^verbatim>\<open>new Date()\<close> is an explicit argument holding the clock reading in milliseconds,
    \<^verbatim>\<open>Math.random()\<close> is an explicit stream of draws.
\<close>

subsection \<open>Strings\<close>

definition lowerChar :: "char \<Rightarrow> char" where
  "lowerChar c =
     (let n = (of_char c :: nat)
      in if 65 \<le> n \<and> n \<le> 90 then char_of (n + 32) else c)"

definition toLowerCase :: "string \<Rightarrow> string" where
  "toLowerCase s = map lowerChar s"

fun startsWith :: "string \<Rightarrow> string \<Rightarrow> bool" where
  "startsWith s [] = True"
| "startsWith [] (k # ks) = False"
| "startsWith (c # cs) (k # ks) = (c = k \<and> startsWith cs ks)"

text \<open>\<^verbatim>\<open>s.includes(k)\<close>: \<open>k\<close> occurs in \<open>s\<close> as a contiguous substring.\<close>

fun str_includes :: "string \<Rightarrow> string \<Rightarrow> bool" where
  "str_includes [] k = (k = [])"
| "str_includes (c # cs) k = (startsWith (c # cs) k \<or> str_includes cs k)"

text \<open>String conversion of an optional value under \<^verbatim>\<open>+\<close>: \<^verbatim>\<open>undefined\<close> prints as itself.\<close>

definition jsString :: "string option \<Rightarrow> string" where
  "jsString v = (case v of None \<Rightarrow> ''undefined'' | Some s \<Rightarrow> s)"

text \<open>\<^verbatim>\<open>title + ' ' + description\<close>, the text every helper analyses.\<close>

definition combinedText :: "string \<Rightarrow> string option \<Rightarrow> string" where
  "combinedText title description = title @ '' '' @ jsString description"

text \<open>\<^verbatim>\<open>s.split(' ')\<close>: the pieces between single spaces, empty pieces kept.\<close>

fun splitSpace :: "string \<Rightarrow> string list" where
  "splitSpace [] = [[]]"
| "splitSpace (c # cs) =
     (if c = CHR '' '' then [] # splitSpace cs
      else (case splitSpace cs of
              [] \<Rightarrow> [[c]]
            | p # ps \<Rightarrow> (c # p) # ps))"

subsection \<open>Priority scorer\<close>

text \<open>
  \<^verbatim>\<open>new Date(dueDate).getTime()\<close> is either a millisecond count or \<^verbatim>\<open>NaN\<close>, for a
  string that is no date. The argument \<open>dueDate\<close> is \<open>None\<close> when the request carries no
  (or an empty) due date, which is what \<^verbatim>\<open>if (dueDate)\<close> tests.
\<close>

datatype jsdate = InvalidDate | TimeMs int

text \<open>
  \<^verbatim>\<open>(due.getTime() - now.getTime()) / (1000 * 60 * 60 * 24)\<close>; \<open>None\<close> is \<^verbatim>\<open>NaN\<close>, on
  which every comparison of the source is false.
\<close>

definition daysUntilDue :: "jsdate \<Rightarrow> int \<Rightarrow> real option" where
  "daysUntilDue due now =
     (case due of
        InvalidDate \<Rightarrow> None
      | TimeMs t \<Rightarrow> Some (real_of_int (t - now) / (1000 * 60 * 60 * 24)))"

text \<open>The project row read by the handler; only its \<^verbatim>\<open>status\<close> is looked at.\<close>

record project =
  status :: string

text \<open>\<^verbatim>\<open>projectContext?.status === 'urgent'\<close>, on a context that may be \<^verbatim>\<open>null\<close>.\<close>

definition projectUrgent :: "project option \<Rightarrow> bool" where
  "projectUrgent projectContext =
     (case projectContext of None \<Rightarrow> False | Some p \<Rightarrow> status p = ''urgent'')"

record priority_factors =
  keywordAnalysis :: string
  dueDateProximity :: string
  projectContextInfo :: string

record priority_suggestion =
  priority :: string
  confidence :: real
  score :: int
  reasoning :: "string list"
  factors :: priority_factors

definition urgentKeywords :: "string list" where
  "urgentKeywords =
     [''urgent'', ''critical'', ''emergency'', ''asap'', ''immediately'', ''bug'', ''error'',
      ''broken'']"

definition highKeywords :: "string list" where
  "highKeywords =
     [''important'', ''major'', ''significant'', ''deadline'', ''client'', ''production'']"

definition lowKeywords :: "string list" where
  "lowKeywords = [''nice to have'', ''enhancement'', ''minor'', ''cosmetic'', ''cleanup'']"

text \<open>
  \<^verbatim>\<open>calculatePrioritySuggestion(title, description, dueDate, projectContext, _userTasks)\<close>.
  The last argument is never read and is left out. The source reads the clock twice when a
  due date is given: \<open>now\<close> for the score, \<open>now2\<close> for the reasoning line.
\<close>

definition calculatePrioritySuggestion ::
  "string \<Rightarrow> string option \<Rightarrow> jsdate option \<Rightarrow> project option \<Rightarrow> int \<Rightarrow> int
     \<Rightarrow> priority_suggestion" where
  "calculatePrioritySuggestion title description dueDate projectContext now now2 =
     (let score0 = (50 :: int);
          text = toLowerCase (combinedText title description);
          score1 =
            (if list_ex (\<lambda>keyword. str_includes text keyword) urgentKeywords then score0 + 30
             else if list_ex (\<lambda>keyword. str_includes text keyword) highKeywords then score0 + 20
             else if list_ex (\<lambda>keyword. str_includes text keyword) lowKeywords then score0 - 20
             else score0);
          score2 =
            (case dueDate of
               None \<Rightarrow> score1
             | Some due \<Rightarrow>
                 (case daysUntilDue due now of
                    None \<Rightarrow> score1
                  | Some d \<Rightarrow>
                      if d < 1 then score1 + 30
                      else if d < 3 then score1 + 20
                      else if d < 7 then score1 + 10
                      else if d > 30 then score1 - 10
                      else score1));
          score3 = (if projectUrgent projectContext then score2 + 15 else score2);
          (priority0, reasoning0) =
            (if score3 \<ge> 80 then (''urgent'', [''High urgency indicators detected''])
             else if score3 \<ge> 65 then (''high'', [''Important task with high impact''])
             else if score3 \<le> 30 then (''low'', [''Low impact or enhancement task''])
             else (''medium'', []));
          reasoning1 =
            (case dueDate of
               None \<Rightarrow> reasoning0
             | Some due \<Rightarrow>
                 (case daysUntilDue due now2 of
                    None \<Rightarrow> reasoning0
                  | Some d \<Rightarrow>
                      if d < 7 then reasoning0 @ [''Due date approaching''] else reasoning0))
      in \<lparr> priority = priority0,
           confidence = 7 / 10,
           score = score3,
           reasoning = reasoning1,
           factors =
             \<lparr> keywordAnalysis =
                 (if list_ex (\<lambda>k. str_includes text k) urgentKeywords then ''urgent''
                  else if list_ex (\<lambda>k. str_includes text k) highKeywords then ''high''
                  else ''normal''),
               dueDateProximity =
                 (case dueDate of None \<Rightarrow> ''not_provided'' | Some _ \<Rightarrow> ''considered''),
               projectContextInfo =
                 (case projectContext of None \<Rightarrow> ''not_available'' | Some _ \<Rightarrow> ''available'')
             \<rparr>
         \<rparr>)"

subsection \<open>Time estimator\<close>

text \<open>
  A row of the historical sample: the two timestamps the helper reads, in milliseconds
  (\<^verbatim>\<open>new Date(task.created_at).getTime()\<close>).
\<close>

record historical_task =
  created_at :: int
  completed_at :: int

record time_factors =
  complexity :: string
  priorityEcho :: string
  taskTypeEcho :: string
  historicalDataPoints :: nat

record time_estimation =
  hours :: int
  minutes :: int
  totalHours :: real
  confidenceT :: real
  factorsT :: time_factors

definition priorityMultipliers :: "(string \<times> real) list" where
  "priorityMultipliers =
     [(''low'', 8 / 10), (''medium'', 1), (''high'', 13 / 10), (''urgent'', 15 / 10)]"

definition typeMultipliers :: "(string \<times> real) list" where
  "typeMultipliers =
     [(''bug'', 7 / 10), (''feature'', 12 / 10), (''research'', 15 / 10),
      (''documentation'', 8 / 10), (''testing'', 9 / 10), (''general'', 1)]"

text \<open>
  The names every object literal inherits from \<^verbatim>\<open>Object.prototype\<close>. Reading one of
  them from a table of the source gives the inherited member, a function or an object: it
  is truthy, so no \<^verbatim>\<open>||\<close> default applies, and it is not a number.
\<close>

definition objectPrototypeKeys :: "string list" where
  "objectPrototypeKeys =
     [''constructor'', ''__defineGetter__'', ''__defineSetter__'', ''hasOwnProperty'',
      ''__lookupGetter__'', ''__lookupSetter__'', ''isPrototypeOf'', ''propertyIsEnumerable'',
      ''toString'', ''valueOf'', ''__proto__'', ''toLocaleString'']"

text \<open>
  \<^verbatim>\<open>table[key] || 1.0\<close> on a table of multipliers: the entry of the key, and \<open>1\<close> for a
  key the literal does not have (or an entry that is \<open>0\<close>). For a key among
  \<^const>\<open>objectPrototypeKeys\<close> the source multiplies by the inherited member and the hours
  become \<^verbatim>\<open>NaN\<close>, which the numeric fields of the result below cannot hold: the
  definition is the source's on every other key, and the properties below that fix a
  priority or a task type fix one of the table.
\<close>

definition multiplierOf :: "(string \<times> real) list \<Rightarrow> string \<Rightarrow> real" where
  "multiplierOf table key =
     (case map_of table key of
        None \<Rightarrow> 1
      | Some m \<Rightarrow> if m = 0 then 1 else m)"

text \<open>\<^verbatim>\<open>(title + ' ' + description).split(' ').length\<close>\<close>

definition wordCount :: "string \<Rightarrow> string option \<Rightarrow> nat" where
  "wordCount title description = length (splitSpace (combinedText title description))"

text \<open>
  The \<^verbatim>\<open>reduce\<close> over the sample: the sum of the elapsed hours of its rows, starting
  from \<open>0\<close>.
\<close>

definition elapsedHoursSum :: "historical_task list \<Rightarrow> real" where
  "elapsedHoursSum historicalTasks =
     foldl (\<lambda>sum task.
          sum + real_of_int (completed_at task - created_at task) / (1000 * 60 * 60))
       0 historicalTasks"

text \<open>
  \<^verbatim>\<open>calculateTimeEstimation(title, description, priority, taskType, historicalTasks)\<close>.
  \<^verbatim>\<open>Math.round\<close> rounds a half upwards, as \<^const>\<open>round\<close> does. The hours are exact
  reals here and IEEE doubles in the source: where a product or a mean is not exact in
  doubles, the source's hours and minutes can differ from the model's by the rounding of
  the last bit (an estimate of exactly four hours can come out as 3 hours 60 minutes).
  The inputs evaluated in the properties below give the same result in doubles.
\<close>

definition calculateTimeEstimation ::
  "string \<Rightarrow> string option \<Rightarrow> string \<Rightarrow> string \<Rightarrow> historical_task list \<Rightarrow> time_estimation"
  where
  "calculateTimeEstimation title description priority' taskType historicalTasks =
     (let baseHours0 = (4 :: real);
          wc = wordCount title description;
          baseHours1 = (if wc > 50 then baseHours0 + 2 else baseHours0);
          baseHours2 = (if wc > 100 then baseHours1 + 2 else baseHours1);
          baseHours3 = baseHours2 * multiplierOf priorityMultipliers priority';
          baseHours4 = baseHours3 * multiplierOf typeMultipliers taskType;
          baseHours5 =
            (if length historicalTasks > 0 then
               let avgCompletionTime =
                     elapsedHoursSum historicalTasks / real (length historicalTasks)
               in (baseHours4 + avgCompletionTime) / 2
             else baseHours4);
          hours' = \<lfloor>baseHours5\<rfloor>;
          minutes' = round ((baseHours5 - real_of_int hours') * 60)
      in \<lparr> hours = hours',
           minutes = minutes',
           totalHours = baseHours5,
           confidenceT = (if length historicalTasks > 10 then 8 / 10 else 6 / 10),
           factorsT =
             \<lparr> complexity = (if wc > 50 then ''high'' else ''medium''),
               priorityEcho = priority',
               taskTypeEcho = taskType,
               historicalDataPoints = length historicalTasks \<rparr>
         \<rparr>)"

subsection \<open>Assignee ranker\<close>

text \<open>
  A roster entry: the member row joined with its user, as the handler's query selects it,
  extended by the two task counts the handler adds (\<^verbatim>\<open>Number(count)\<close> of a
  \<^verbatim>\<open>COUNT(*)\<close>, so a natural number).
\<close>

record member_row =
  member_id :: string
  username :: string
  first_name :: string
  last_name :: string
  email :: string
  role :: string

record member = member_row +
  activeTaskCount :: nat
  totalTaskCount :: nat

record user_summary =
  user_id :: string
  user_username :: string
  user_first_name :: string
  user_last_name :: string
  user_email :: string

record assignee_suggestion =
  user :: user_summary
  scoreA :: int
  confidenceA :: real
  reasons :: "string list"
  workloadStatus :: string

text \<open>Decimal rendering of a count inside a template string.\<close>

fun showNat :: "nat \<Rightarrow> string" where
  "showNat n =
     (if n < 10 then [char_of (48 + n)]
      else showNat (n div 10) @ [char_of (48 + n mod 10)])"

declare showNat.simps [simp del]

text \<open>\<^verbatim>\<open>xs.join(', ')\<close>\<close>

fun joinComma :: "string list \<Rightarrow> string" where
  "joinComma [] = []"
| "joinComma [x] = x"
| "joinComma (x # y # ys) = x @ '', '' @ joinComma (y # ys)"

text \<open>
  The \<^verbatim>\<open>filter\<close> of the skill matching: a required skill is kept when its lower-cased
  form occurs in the task text or in the member's lower-cased user name.
\<close>

definition matchedSkills :: "string \<Rightarrow> string option \<Rightarrow> string list \<Rightarrow> member \<Rightarrow> string list"
  where
  "matchedSkills title description skillsRequired m =
     (let text = toLowerCase (combinedText title description)
      in filter (\<lambda>skill.
             str_includes text (toLowerCase skill) \<or>
             str_includes (toLowerCase (username m)) (toLowerCase skill))
           skillsRequired)"

text \<open>The body of the \<^verbatim>\<open>members.map\<close> callback: the suggestion of one member.\<close>

definition suggestionFor ::
  "string \<Rightarrow> string option \<Rightarrow> string list \<Rightarrow> member \<Rightarrow> assignee_suggestion" where
  "suggestionFor title description skillsRequired m =
     (let score0 = (50 :: int);
          workloadPenalty = int (activeTaskCount m) * 5;
          score1 = score0 - workloadPenalty;
          experienceBonus = min (int (totalTaskCount m) * 2) 20;
          score2 = score1 + experienceBonus;
          score3 =
            (if role m = ''owner'' then score2 + 10
             else if role m = ''admin'' then score2 + 5
             else score2);
          score4 =
            (if length skillsRequired > 0 then
               score3 + int (length (matchedSkills title description skillsRequired m)) * 10
             else score3)
      in \<lparr> user =
             \<lparr> user_id = member_id m,
               user_username = username m,
               user_first_name = first_name m,
               user_last_name = last_name m,
               user_email = email m \<rparr>,
           scoreA = max 0 (min 100 score4),
           confidenceA = 6 / 10,
           reasons =
             [''Current workload: '' @ showNat (activeTaskCount m) @ '' active tasks'',
              ''Experience: '' @ showNat (totalTaskCount m) @ '' total tasks'',
              ''Role: '' @ role m]
             @ (if length skillsRequired > 0 then [''Skills: '' @ joinComma skillsRequired]
                else []),
           workloadStatus =
             (if activeTaskCount m < 3 then ''light''
              else if activeTaskCount m < 6 then ''moderate''
              else ''heavy'')
         \<rparr>)"

text \<open>
  \<^verbatim>\<open>calculateAssigneeSuggestions(title, description, skillsRequired, _workload, members)\<close>.
  The argument \<^verbatim>\<open>_workload\<close> is never read and is left out.
  \<^verbatim>\<open>sort((a, b) => b.score - a.score)\<close> is a stable sort by descending score, here the
  stable insertion sort on the negated score; \<^verbatim>\<open>slice(0, 5)\<close> keeps the first five.
\<close>

definition calculateAssigneeSuggestions ::
  "string \<Rightarrow> string option \<Rightarrow> string list \<Rightarrow> member list \<Rightarrow> assignee_suggestion list" where
  "calculateAssigneeSuggestions title description skillsRequired members =
     (let suggestions =
            sort_key (\<lambda>s. - scoreA s)
              (map (suggestionFor title description skillsRequired) members)
      in take 5 suggestions)"

subsection \<open>Task decomposer\<close>

record subtask =
  subtaskTitle :: string
  estimatedHours :: int
  subtaskPriority :: string

record breakdown =
  subtasks :: "subtask list"
  totalEstimatedHours :: int
  complexityEcho :: string
  confidenceB :: real
  recommendations :: "string list"

definition commonSubtasks :: "string list" where
  "commonSubtasks =
     [''Research and planning'', ''Design and architecture'', ''Implementation'', ''Testing'',
      ''Documentation'', ''Code review'', ''Deployment preparation'']"

definition complexityMap :: "(string \<times> nat) list" where
  "complexityMap = [(''low'', 3), (''medium'', 5), (''high'', 7), (''very_high'', 9)]"

text \<open>
  \<^verbatim>\<open>complexityMap[complexity] || 5\<close>: the entry of the key, \<open>5\<close> for a key the literal
  does not have, and \<open>None\<close> for a key among \<^const>\<open>objectPrototypeKeys\<close>, where the source
  reads the inherited member, which is not a number.
\<close>

definition subtaskCountOf :: "string \<Rightarrow> nat option" where
  "subtaskCountOf complexity' =
     (case map_of complexityMap complexity' of
        Some n \<Rightarrow> Some (if n = 0 then 5 else n)
      | None \<Rightarrow> if complexity' \<in> set objectPrototypeKeys then None else Some 5)"

text \<open>
  \<^verbatim>\<open>xs[i]\<close> for a computed index: \<open>None\<close> is \<^verbatim>\<open>undefined\<close>, the value of a read
  outside the array.
\<close>

definition jsIndex :: "'a list \<Rightarrow> int \<Rightarrow> 'a option" where
  "jsIndex xs i = (if 0 \<le> i \<and> i < int (length xs) then Some (xs ! nat i) else None)"

text \<open>\<^verbatim>\<open>s || fallback\<close> on a string that may be \<^verbatim>\<open>undefined\<close> or empty.\<close>

definition orElse :: "string option \<Rightarrow> string \<Rightarrow> string" where
  "orElse v fallback =
     (case v of None \<Rightarrow> fallback | Some s \<Rightarrow> if s = [] then fallback else s)"

text \<open>
  The generic subtasks not yet named by a current subtask: the \<^verbatim>\<open>filter\<close> at the head of
  the loop body.
\<close>

definition remainingSubtasks :: "subtask list \<Rightarrow> string list" where
  "remainingSubtasks sts =
     filter (\<lambda>task.
          \<not> list_ex (\<lambda>st. str_includes (toLowerCase (subtaskTitle st)) (toLowerCase task)) sts)
       commonSubtasks"

text \<open>
  The \<^verbatim>\<open>while (subtasks.length < subtaskCount)\<close> loop. \<open>rnd\<close> is the stream of
  \<^verbatim>\<open>Math.random()\<close> draws and \<open>k\<close> the number of draws made so far; one round makes
  three draws, for the task, its priority and its hours, in this order.
\<close>

function fillSubtasks :: "(nat \<Rightarrow> real) \<Rightarrow> nat \<Rightarrow> nat \<Rightarrow> subtask list \<Rightarrow> subtask list" where
  "fillSubtasks rnd k subtaskCount sts =
     (if length sts < subtaskCount then
        (if remainingSubtasks sts = [] then sts
         else
           fillSubtasks rnd (k + 3) subtaskCount
             (sts @
              [\<lparr> subtaskTitle =
                   orElse
                     (jsIndex (remainingSubtasks sts)
                        \<lfloor>rnd k * real (length (remainingSubtasks sts))\<rfloor>)
                     ''General task'',
                 estimatedHours = \<lfloor>rnd (k + 2) * 4\<rfloor> + 1,
                 subtaskPriority =
                   orElse (jsIndex [''low'', ''medium'', ''high''] \<lfloor>rnd (k + 1) * 3\<rfloor>)
                     ''medium'' \<rparr>]))
      else sts)"
  by pat_completeness auto
termination
  by (relation "measure (\<lambda>(rnd, k, subtaskCount, sts). subtaskCount - length sts)") auto

declare fillSubtasks.simps [simp del]

definition apiSubtasks :: "subtask list" where
  "apiSubtasks =
     [\<lparr> subtaskTitle = ''Design API endpoints'', estimatedHours = 2,
        subtaskPriority = ''high'' \<rparr>,
      \<lparr> subtaskTitle = ''Implement backend logic'', estimatedHours = 4,
        subtaskPriority = ''high'' \<rparr>,
      \<lparr> subtaskTitle = ''Add error handling'', estimatedHours = 2,
        subtaskPriority = ''medium'' \<rparr>]"

definition uiSubtasks :: "subtask list" where
  "uiSubtasks =
     [\<lparr> subtaskTitle = ''Create UI mockups'', estimatedHours = 2,
        subtaskPriority = ''medium'' \<rparr>,
      \<lparr> subtaskTitle = ''Implement user interface'', estimatedHours = 4,
        subtaskPriority = ''high'' \<rparr>,
      \<lparr> subtaskTitle = ''Add responsive design'', estimatedHours = 2,
        subtaskPriority = ''medium'' \<rparr>]"

definition dataSubtasks :: "subtask list" where
  "dataSubtasks =
     [\<lparr> subtaskTitle = ''Design database schema'', estimatedHours = 2,
        subtaskPriority = ''high'' \<rparr>,
      \<lparr> subtaskTitle = ''Create migrations'', estimatedHours = 1,
        subtaskPriority = ''high'' \<rparr>,
      \<lparr> subtaskTitle = ''Optimize queries'', estimatedHours = 2,
        subtaskPriority = ''medium'' \<rparr>]"

text \<open>
  \<^verbatim>\<open>generateTaskBreakdown(title, description, complexity, _similarTasks)\<close>, with the
  stream of random draws as an extra argument; \<^verbatim>\<open>_similarTasks\<close> is never read and is
  left out. When the target count is not a number, the loop test
  \<^verbatim>\<open>subtasks.length < subtaskCount\<close> is false, so the loop is not entered, and
  \<^verbatim>\<open>slice(0, subtaskCount)\<close> is empty.
\<close>

definition generateTaskBreakdown ::
  "(nat \<Rightarrow> real) \<Rightarrow> string \<Rightarrow> string option \<Rightarrow> string \<Rightarrow> breakdown" where
  "generateTaskBreakdown rnd title description complexity' =
     (let subtaskCount = subtaskCountOf complexity';
          text = toLowerCase (combinedText title description);
          sts0 = [];
          sts1 =
            (if str_includes text ''api'' \<or> str_includes text ''backend''
             then sts0 @ apiSubtasks else sts0);
          sts2 =
            (if str_includes text ''ui'' \<or> str_includes text ''frontend''
             then sts1 @ uiSubtasks else sts1);
          sts3 =
            (if str_includes text ''database'' \<or> str_includes text ''data''
             then sts2 @ dataSubtasks else sts2);
          sts4 =
            (case subtaskCount of
               None \<Rightarrow> sts3
             | Some n \<Rightarrow> fillSubtasks rnd 0 n sts3);
          totalHours' = foldl (\<lambda>sum task. sum + estimatedHours task) 0 sts4
      in \<lparr> subtasks =
             (case subtaskCount of
                None \<Rightarrow> []
              | Some n \<Rightarrow> take n sts4),
           totalEstimatedHours = totalHours',
           complexityEcho = complexity',
           confidenceB = 7 / 10,
           recommendations =
             [''Start with high-priority subtasks'',
              ''Consider breaking down large subtasks further'',
              ''Review estimates after beginning work'',
              ''Update progress regularly'']
         \<rparr>)"

subsection \<open>Request handlers and the audit row\<close>

text \<open>
  The errors a handler can end with: the \<^verbatim>\<open>AppError\<close> it throws itself (message and
  status), the rejection of a database call, and the \<^verbatim>\<open>TypeError\<close> of reading a
  property of \<^verbatim>\<open>undefined\<close>. The \<^verbatim>\<open>catch\<close> block of every handler logs the error and
  throws it again, so the error a handler ends with is the one that was raised.
\<close>

datatype error = AppError string nat | DbError string | TypeError string

text \<open>The suggestion a helper computed, whichever helper it was.\<close>

datatype suggestion =
    TimeS time_estimation
  | PriorityS priority_suggestion
  | AssigneeS "assignee_suggestion list"
  | BreakdownS breakdown

text \<open>
  The object given to \<^verbatim>\<open>JSON.stringify\<close> for the \<^verbatim>\<open>content\<close> column: the request
  fields it echoes and the suggestion.
\<close>

datatype content =
    TimeContent string "string option" string string time_estimation
  | PriorityContent string "string option" "jsdate option" priority_suggestion
  | AssigneeContent string "string option" "string list" string "assignee_suggestion list"
  | BreakdownContent string "string option" string breakdown

fun payload :: "content \<Rightarrow> suggestion" where
  "payload (TimeContent title description priority' taskType estimation) = TimeS estimation"
| "payload (PriorityContent title description dueDate s) = PriorityS s"
| "payload (AssigneeContent title description skillsRequired workload ss) = AssigneeS ss"
| "payload (BreakdownContent title description complexity' b) = BreakdownS b"

text \<open>The object given to \<^verbatim>\<open>insert\<close>, and a row of the table \<^verbatim>\<open>ai_suggestions\<close>.\<close>

record new_suggestion =
  ins_user_id :: string
  ins_project_id :: "string option"
  ins_suggestion_type :: string
  ins_content :: content
  ins_created_at :: int

record suggestion_row =
  row_id :: string
  row_user_id :: string
  row_project_id :: "string option"
  row_suggestion_type :: string
  row_content :: content
  row_created_at :: int

text \<open>
  The database as the handlers use it. A read is a function of its arguments that gives the
  rows or the error the query is rejected with. \<open>insertSuggestion\<close> is
  \<^verbatim>\<open>db('ai_suggestions').insert(...).returning('*')\<close>: from the table and the new row, the
  rows returned (or the error) and the table afterwards.
\<close>

record database =
  findMembership :: "string \<Rightarrow> string \<Rightarrow> error + bool"
  findProject :: "string \<Rightarrow> error + project option"
  completedTasksOf :: "string \<Rightarrow> error + historical_task list"
  userTasksOf :: "string \<Rightarrow> error + unit"
  activeMembersOf :: "string \<Rightarrow> error + member_row list"
  countActiveTasks :: "string \<Rightarrow> error + nat"
  countTotalTasks :: "string \<Rightarrow> error + nat"
  similarTasksOf :: "string \<Rightarrow> error + unit"
  insertSuggestion ::
    "suggestion_row list \<Rightarrow> new_suggestion \<Rightarrow> (error + suggestion_row list) \<times> suggestion_row list"

text \<open>
  \<^verbatim>\<open>req.body\<close>: every field may be missing. \<open>b_dueDate\<close> holds what
  \<^verbatim>\<open>new Date(dueDate)\<close> makes of the field, \<open>None\<close> for a missing or empty one.
\<close>

record body =
  b_title :: "string option"
  b_description :: "string option"
  b_priority :: "string option"
  b_taskType :: "string option"
  b_dueDate :: "jsdate option"
  b_projectId :: "string option"
  b_skillsRequired :: "string list option"
  b_workload :: "string option"
  b_complexity :: "string option"

text \<open>
  The \<^verbatim>\<open>data\<close> of the JSON response: the suggestion, the member count the assignee handler
  adds, and the id of the stored row. (The time handler's response repeats the confidence
  and the factors of its estimation beside it; they are fields of \<open>data\<close> here.)
\<close>

record response =
  data :: suggestion
  projectMemberCount :: "nat option"
  suggestionId :: string

text \<open>Truthiness of an optional string: \<^verbatim>\<open>undefined\<close> and the empty string are falsy.\<close>

definition truthy :: "string option \<Rightarrow> bool" where
  "truthy v = (case v of None \<Rightarrow> False | Some s \<Rightarrow> s \<noteq> [])"

text \<open>A destructuring default: it applies to a missing field only.\<close>

definition withDefault :: "'a option \<Rightarrow> 'a \<Rightarrow> 'a" where
  "withDefault v d = (case v of None \<Rightarrow> d | Some x \<Rightarrow> x)"

text \<open>\<^verbatim>\<open>projectId || null\<close>\<close>

definition orNull :: "string option \<Rightarrow> string option" where
  "orNull v = (if truthy v then v else None)"

text \<open>
  The tail every handler ends with: destructure the first returned row, read its id and
  answer. An empty result leaves \<^verbatim>\<open>suggestionRecord\<close> undefined, and reading its
  \<^verbatim>\<open>id\<close> throws.
\<close>

definition respond ::
  "suggestion \<Rightarrow> nat option \<Rightarrow> (error + suggestion_row list) \<times> suggestion_row list
     \<Rightarrow> (error + response) \<times> suggestion_row list" where
  "respond s count inserted =
     (case inserted of
        (Inl e, tbl') \<Rightarrow> (Inl e, tbl')
      | (Inr [], tbl') \<Rightarrow>
          (Inl (TypeError ''Cannot read properties of undefined (reading id)''), tbl')
      | (Inr (suggestionRecord # _), tbl') \<Rightarrow>
          (Inr \<lparr> data = s, projectMemberCount = count,
                 suggestionId = row_id suggestionRecord \<rparr>, tbl'))"

text \<open>
  \<^verbatim>\<open>estimateTime\<close>. \<open>clock n\<close> is the \<open>n\<close>-th reading of \<^verbatim>\<open>new Date()\<close> during the
  request, \<open>tbl\<close> the table \<^verbatim>\<open>ai_suggestions\<close> before it.
\<close>

definition estimateTime ::
  "database \<Rightarrow> (nat \<Rightarrow> int) \<Rightarrow> string \<Rightarrow> body \<Rightarrow> suggestion_row list
     \<Rightarrow> (error + response) \<times> suggestion_row list" where
  "estimateTime db clock userId b tbl =
     (let description = b_description b;
          priority' = withDefault (b_priority b) ''medium'';
          taskType = withDefault (b_taskType b) ''general'';
          titleRequired = AppError ''Task title is required for time estimation'' 400
      in case b_title b of
           None \<Rightarrow> (Inl titleRequired, tbl)
         | Some title \<Rightarrow>
             if title = [] then (Inl titleRequired, tbl)
             else
               (case completedTasksOf db userId of
                  Inl e \<Rightarrow> (Inl e, tbl)
                | Inr completedTasks \<Rightarrow>
                    let estimation =
                          calculateTimeEstimation title description priority' taskType
                            completedTasks
                    in respond (TimeS estimation) None
                         (insertSuggestion db tbl
                            \<lparr> ins_user_id = userId,
                              ins_project_id = None,
                              ins_suggestion_type = ''time_estimation'',
                              ins_content =
                                TimeContent title description priority' taskType estimation,
                              ins_created_at = clock 0 \<rparr>)))"

text \<open>
  The membership test of a handler: the first row of \<^verbatim>\<open>project_members\<close> for the project
  and the user, and \<^verbatim>\<open>Access denied\<close> when there is none.
\<close>

definition checkAccess :: "database \<Rightarrow> string \<Rightarrow> string \<Rightarrow> error + unit" where
  "checkAccess db projectId userId =
     (case findMembership db projectId userId of
        Inl e \<Rightarrow> Inl e
      | Inr membership \<Rightarrow>
          if \<not> membership then Inl (AppError ''Access denied to this project'' 403)
          else Inr ())"

text \<open>
  \<^verbatim>\<open>suggestPriority\<close>. The helper reads the clock twice when a due date is given, so the
  \<^verbatim>\<open>created_at\<close> of the row is the third reading then, and the first otherwise.
\<close>

definition suggestPriority ::
  "database \<Rightarrow> (nat \<Rightarrow> int) \<Rightarrow> string \<Rightarrow> body \<Rightarrow> suggestion_row list
     \<Rightarrow> (error + response) \<times> suggestion_row list" where
  "suggestPriority db clock userId b tbl =
     (let description = b_description b;
          dueDate = b_dueDate b;
          projectId = b_projectId b;
          titleRequired = AppError ''Task title is required for priority suggestion'' 400
      in case b_title b of
           None \<Rightarrow> (Inl titleRequired, tbl)
         | Some title \<Rightarrow>
             if title = [] then (Inl titleRequired, tbl)
             else
               (case (case projectId of
                        None \<Rightarrow> Inr None
                      | Some pid \<Rightarrow>
                          if pid = [] then Inr None
                          else (case checkAccess db pid userId of
                                  Inl e \<Rightarrow> Inl e
                                | Inr _ \<Rightarrow> findProject db pid)) of
                  Inl e \<Rightarrow> (Inl e, tbl)
                | Inr projectContext \<Rightarrow>
                    (case userTasksOf db userId of
                       Inl e \<Rightarrow> (Inl e, tbl)
                     | Inr _ \<Rightarrow>
                         let prioritySuggestion =
                               calculatePrioritySuggestion title description dueDate
                                 projectContext (clock 0) (clock 1)
                         in respond (PriorityS prioritySuggestion) None
                              (insertSuggestion db tbl
                                 \<lparr> ins_user_id = userId,
                                   ins_project_id = orNull projectId,
                                   ins_suggestion_type = ''priority'',
                                   ins_content =
                                     PriorityContent title description dueDate
                                       prioritySuggestion,
                                   ins_created_at =
                                     (case dueDate of None \<Rightarrow> clock 0 | Some _ \<Rightarrow> clock 2)
                                 \<rparr>))))"

text \<open>
  The workload of every member: two counting queries each. The source starts them under
  \<^verbatim>\<open>Promise.all\<close>; the model runs them in roster order and stops at the first rejection.
\<close>

fun memberWorkloads :: "database \<Rightarrow> member_row list \<Rightarrow> error + member list" where
  "memberWorkloads db [] = Inr []"
| "memberWorkloads db (m # ms) =
     (case countActiveTasks db (member_id m) of
        Inl e \<Rightarrow> Inl e
      | Inr activeCount \<Rightarrow>
          (case countTotalTasks db (member_id m) of
             Inl e \<Rightarrow> Inl e
           | Inr totalCount \<Rightarrow>
               (case memberWorkloads db ms of
                  Inl e \<Rightarrow> Inl e
                | Inr rest \<Rightarrow>
                    Inr (\<lparr> member_id = member_id m, username = username m,
                           first_name = first_name m, last_name = last_name m,
                           email = email m, role = role m,
                           activeTaskCount = activeCount, totalTaskCount = totalCount \<rparr> # rest))))"

text \<open>\<^verbatim>\<open>suggestAssignee\<close>\<close>

definition suggestAssignee ::
  "database \<Rightarrow> (nat \<Rightarrow> int) \<Rightarrow> string \<Rightarrow> body \<Rightarrow> suggestion_row list
     \<Rightarrow> (error + response) \<times> suggestion_row list" where
  "suggestAssignee db clock userId b tbl =
     (let description = b_description b;
          skillsRequired = withDefault (b_skillsRequired b) [];
          workload = withDefault (b_workload b) ''normal'';
          required = AppError ''Task title and project ID are required'' 400
      in case (b_title b, b_projectId b) of
           (Some title, Some projectId) \<Rightarrow>
             if title = [] \<or> projectId = [] then (Inl required, tbl)
             else
               (case checkAccess db projectId userId of
                  Inl e \<Rightarrow> (Inl e, tbl)
                | Inr _ \<Rightarrow>
                    (case activeMembersOf db projectId of
                       Inl e \<Rightarrow> (Inl e, tbl)
                     | Inr projectMembers \<Rightarrow>
                         (case memberWorkloads db projectMembers of
                            Inl e \<Rightarrow> (Inl e, tbl)
                          | Inr workloads \<Rightarrow>
                              let assigneeSuggestions =
                                    calculateAssigneeSuggestions title description
                                      skillsRequired workloads
                              in respond (AssigneeS assigneeSuggestions)
                                   (Some (length projectMembers))
                                   (insertSuggestion db tbl
                                      \<lparr> ins_user_id = userId,
                                        ins_project_id = Some projectId,
                                        ins_suggestion_type = ''assignee'',
                                        ins_content =
                                          AssigneeContent title description skillsRequired
                                            workload assigneeSuggestions,
                                        ins_created_at = clock 0 \<rparr>))))
         | _ \<Rightarrow> (Inl required, tbl))"

text \<open>\<^verbatim>\<open>breakdownTask\<close>, with the stream of random draws of the request.\<close>

definition breakdownTask ::
  "database \<Rightarrow> (nat \<Rightarrow> int) \<Rightarrow> (nat \<Rightarrow> real) \<Rightarrow> string \<Rightarrow> body \<Rightarrow> suggestion_row list
     \<Rightarrow> (error + response) \<times> suggestion_row list" where
  "breakdownTask db clock rnd userId b tbl =
     (let description = b_description b;
          complexity' = withDefault (b_complexity b) ''medium'';
          projectId = b_projectId b;
          titleRequired = AppError ''Task title is required for breakdown'' 400
      in case b_title b of
           None \<Rightarrow> (Inl titleRequired, tbl)
         | Some title \<Rightarrow>
             if title = [] then (Inl titleRequired, tbl)
             else
               (case (case projectId of
                        None \<Rightarrow> Inr ()
                      | Some pid \<Rightarrow>
                          if pid = [] then Inr () else checkAccess db pid userId) of
                  Inl e \<Rightarrow> (Inl e, tbl)
                | Inr _ \<Rightarrow>
                    (case similarTasksOf db userId of
                       Inl e \<Rightarrow> (Inl e, tbl)
                     | Inr _ \<Rightarrow>
                         let breakdown' =
                               generateTaskBreakdown rnd title description complexity'
                         in respond (BreakdownS breakdown') None
                              (insertSuggestion db tbl
                                 \<lparr> ins_user_id = userId,
                                   ins_project_id = orNull projectId,
                                   ins_suggestion_type = ''task_breakdown'',
                                   ins_content =
                                     BreakdownContent title description complexity'
                                       breakdown',
                                   ins_created_at = clock 0 \<rparr>))))"

text \<open>
  What the store promises for one \<^verbatim>\<open>insert ... returning\<close>: a rejected insert leaves the
  table as it was, an accepted one appends exactly the row it returns, and that row carries
  the fields it was given.
\<close>

definition storedAs :: "suggestion_row \<Rightarrow> new_suggestion \<Rightarrow> bool" where
  "storedAs row r =
     (row_user_id row = ins_user_id r \<and> row_project_id row = ins_project_id r \<and>
      row_suggestion_type row = ins_suggestion_type r \<and> row_content row = ins_content r \<and>
      row_created_at row = ins_created_at r)"

type_synonym suggestion_table = "suggestion_row list"

type_synonym insert_op =
  "suggestion_table \<Rightarrow> new_suggestion \<Rightarrow> (error + suggestion_row list) \<times> suggestion_table"

type_synonym outcome = "(error + response) \<times> suggestion_table"

definition atomicInsert :: "insert_op \<Rightarrow> bool" where
  "atomicInsert ins =
     (\<forall>tbl r.
        case ins tbl r of
          (Inl e, tbl') \<Rightarrow> tbl' = tbl
        | (Inr rows, tbl') \<Rightarrow> (\<exists>row. rows = [row] \<and> tbl' = tbl @ [row] \<and> storedAs row r))"

text \<open>
  The outcome of a handler on the table \<open>tbl\<close> is \<^emph>\<open>recorded\<close> when a response comes with
  the table extended by exactly one row, which has the id and the suggestion of the
  response, and an error comes with the table unchanged.
\<close>

definition recorded :: "suggestion_row list \<Rightarrow> (error + response) \<times> suggestion_row list \<Rightarrow> bool"
  where
  "recorded tbl out =
     (case out of
        (Inl e, tbl') \<Rightarrow> tbl' = tbl
      | (Inr resp, tbl') \<Rightarrow>
          (case rev tbl' of
             [] \<Rightarrow> False
           | row # before \<Rightarrow>
               rev before = tbl \<and> row_id row = suggestionId resp \<and>
               payload (row_content row) = data resp))"

text \<open>
  The two ways a handler can run, as a function \<open>handler\<close> of the database, on the table
  \<open>tbl\<close>. Either it fails before it touches the table: whatever the insert operation of
  the database is, it ends with one and the same error and the table as it was.
\<close>

definition failsBeforeInsert :: "(database \<Rightarrow> outcome) \<Rightarrow> database \<Rightarrow> suggestion_table \<Rightarrow> bool"
  where
  "failsBeforeInsert handler db tbl =
     (\<exists>e. \<forall>ins. handler (db\<lparr>insertSuggestion := ins\<rparr>) = (Inl e, tbl))"

text \<open>
  Or it submits one row: there is a row \<open>r\<close> of the user and of the suggestion type
  \<open>kind\<close>, whose content carries a suggestion \<open>s\<close>, such that, whatever the insert operation \<open>ins\<close> of the database is,
  the handler ends as the one call \<open>ins tbl r\<close> decides and with the table that call left:
  \<^item> when the call is rejected with the error \<open>e\<close>, the handler ends with \<open>e\<close> and gives
    no response;
  \<^item> when the call returns no row, the handler ends with an error and gives no response;
  \<^item> when the call returns rows, the handler responds with the suggestion \<open>s\<close> and the id
    of the first row returned.
\<close>

definition submitsOneRow ::
  "(database \<Rightarrow> outcome) \<Rightarrow> database \<Rightarrow> string \<Rightarrow> string \<Rightarrow> suggestion_table \<Rightarrow> bool"
  where
  "submitsOneRow handler db userId kind tbl =
     (\<exists>r s c. ins_user_id r = userId \<and> ins_suggestion_type r = kind \<and>
        payload (ins_content r) = s \<and>
        (\<forall>ins.
           case ins tbl r of
             (Inl e, tbl') \<Rightarrow> handler (db\<lparr>insertSuggestion := ins\<rparr>) = (Inl e, tbl')
           | (Inr [], tbl') \<Rightarrow>
               (\<exists>e. handler (db\<lparr>insertSuggestion := ins\<rparr>) = (Inl e, tbl'))
           | (Inr (row # rest), tbl') \<Rightarrow>
               handler (db\<lparr>insertSuggestion := ins\<rparr>) =
                 (Inr \<lparr> data = s, projectMemberCount = c, suggestionId = row_id row \<rparr>,
                  tbl')))"

text \<open>
  The audit contract of a handler for the user \<open>userId\<close> and the suggestion type \<open>kind\<close>
  on the database \<open>db\<close> and the table \<open>tbl\<close>: the handler runs in one of the two ways above, and, when the insert of
  \<open>db\<close> is atomic, its outcome on \<open>db\<close> is recorded.
\<close>

definition persistsBeforeResponding ::
  "(database \<Rightarrow> outcome) \<Rightarrow> database \<Rightarrow> string \<Rightarrow> string \<Rightarrow> suggestion_table \<Rightarrow> bool"
  where
  "persistsBeforeResponding handler db userId kind tbl =
     ((failsBeforeInsert handler db tbl \<or> submitsOneRow handler db userId kind tbl) \<and>
      (atomicInsert (insertSuggestion db) \<longrightarrow> recorded tbl (handler db)))"

subsection \<open>A sample database\<close>

text \<open>
  A store that accepts every row, giving it the number of rows before it as its id, and a
  store that rejects every row; a database whose reads all succeed, and a request.
\<close>

definition appendRow :: insert_op where
  "appendRow tbl r =
     (let row = \<lparr> row_id = showNat (length tbl), row_user_id = ins_user_id r,
                   row_project_id = ins_project_id r,
                   row_suggestion_type = ins_suggestion_type r,
                   row_content = ins_content r, row_created_at = ins_created_at r \<rparr>
      in (Inr [row], tbl @ [row]))"

definition rejectRow :: insert_op where
  "rejectRow tbl r = (Inl (DbError ''connection terminated''), tbl)"

definition sampleDb :: "insert_op \<Rightarrow> database" where
  "sampleDb ins =
     \<lparr> findMembership = (\<lambda>projectId userId. Inr True),
       findProject = (\<lambda>projectId. Inr (Some \<lparr>status = ''active''\<rparr>)),
       completedTasksOf = (\<lambda>userId. Inr []),
       userTasksOf = (\<lambda>userId. Inr ()),
       activeMembersOf = (\<lambda>projectId. Inr []),
       countActiveTasks = (\<lambda>memberId. Inr 0),
       countTotalTasks = (\<lambda>memberId. Inr 0),
       similarTasksOf = (\<lambda>userId. Inr ()),
       insertSuggestion = ins \<rparr>"

definition sampleBody :: body where
  "sampleBody =
     \<lparr> b_title = Some ''Critical production issue'',
       b_description = Some ''Server is down'',
       b_priority = None, b_taskType = None, b_dueDate = None,
       b_projectId = Some ''p1'', b_skillsRequired = None, b_workload = None,
       b_complexity = None \<rparr>"

subsection \<open>The three contributions to the priority score\<close>

text \<open>
  The tier of the keyword analysis, the band of the due date and the project flag, named so
  that the score can be compared across inputs: which branch of each \<^verbatim>\<open>if\<close> chain of
  \<^verbatim>\<open>calculatePrioritySuggestion\<close> an input takes, its rank in the order from least to most
  pressing, and the amount the branch adds.
\<close>

datatype keyword_tier = TierLow | TierNone | TierHigh | TierUrgent

definition keywordTier :: "string \<Rightarrow> string option \<Rightarrow> keyword_tier" where
  "keywordTier title description =
     (let text = toLowerCase (combinedText title description)
      in if list_ex (\<lambda>keyword. str_includes text keyword) urgentKeywords then TierUrgent
         else if list_ex (\<lambda>keyword. str_includes text keyword) highKeywords then TierHigh
         else if list_ex (\<lambda>keyword. str_includes text keyword) lowKeywords then TierLow
         else TierNone)"

fun tierRank :: "keyword_tier \<Rightarrow> nat" where
  "tierRank TierLow = 0"
| "tierRank TierNone = 1"
| "tierRank TierHigh = 2"
| "tierRank TierUrgent = 3"

fun tierAdjust :: "keyword_tier \<Rightarrow> int" where
  "tierAdjust TierLow = - 20"
| "tierAdjust TierNone = 0"
| "tierAdjust TierHigh = 20"
| "tierAdjust TierUrgent = 30"

datatype due_band = BandOver30Days | BandOther | BandUnder7Days | BandUnder3Days | BandUnder1Day

definition dueBand :: "jsdate option \<Rightarrow> int \<Rightarrow> due_band" where
  "dueBand dueDate now =
     (case dueDate of
        None \<Rightarrow> BandOther
      | Some due \<Rightarrow>
          (case daysUntilDue due now of
             None \<Rightarrow> BandOther
           | Some d \<Rightarrow>
               if d < 1 then BandUnder1Day
               else if d < 3 then BandUnder3Days
               else if d < 7 then BandUnder7Days
               else if d > 30 then BandOver30Days
               else BandOther))"

fun bandRank :: "due_band \<Rightarrow> nat" where
  "bandRank BandOver30Days = 0"
| "bandRank BandOther = 1"
| "bandRank BandUnder7Days = 2"
| "bandRank BandUnder3Days = 3"
| "bandRank BandUnder1Day = 4"

fun bandAdjust :: "due_band \<Rightarrow> int" where
  "bandAdjust BandOver30Days = - 10"
| "bandAdjust BandOther = 0"
| "bandAdjust BandUnder7Days = 10"
| "bandAdjust BandUnder3Days = 20"
| "bandAdjust BandUnder1Day = 30"

definition flagAdjust :: "project option \<Rightarrow> int" where
  "flagAdjust projectContext = (if projectUrgent projectContext then 15 else 0)"

subsection \<open>Sample roster entries\<close>

text \<open>Three members used where a property is shown on a concrete roster.\<close>

definition apiGuru :: member where
  "apiGuru =
     \<lparr> member_id = ''u1'', username = ''api_guru'', first_name = ''Ada'',
       last_name = ''Guru'', email = ''ada@example.com'', role = ''member'',
       activeTaskCount = 0, totalTaskCount = 0 \<rparr>"

definition swampedMember :: member where
  "swampedMember =
     \<lparr> member_id = ''u2'', username = ''bob'', first_name = ''Bob'',
       last_name = ''Busy'', email = ''bob@example.com'', role = ''member'',
       activeTaskCount = 1000000000000, totalTaskCount = 0 \<rparr>"

definition veteranOwner :: member where
  "veteranOwner =
     \<lparr> member_id = ''u3'', username = ''defined_owner'', first_name = ''Vera'',
       last_name = ''Owner'', email = ''vera@example.com'', role = ''owner'',
       activeTaskCount = 0, totalTaskCount = 1000000000000 \<rparr>"

subsection \<open>Sample titles\<close>

text \<open>Titles of forty-nine and of fifty one-letter words.\<close>

definition fortyNineWords :: string where
  "fortyNineWords = concat (replicate 48 ''a '') @ ''a''"

definition fiftyWords :: string where
  "fiftyWords = concat (replicate 49 ''a '') @ ''a''"

section \<open>Properties\<close>

lemmas js_eval =
  toLowerCase_def lowerChar_def char_of_def bit_Suc_0_iff combinedText_def jsString_def

subsection \<open>Priority scorer\<close>

text \<open>
  The score is the base \<open>50\<close> plus the three contributions, each read off the branch the
  input takes.
\<close>

lemma priority_score_sum:
  "score (calculatePrioritySuggestion title description dueDate projectContext now now2) =
     50 + tierAdjust (keywordTier title description) + bandAdjust (dueBand dueDate now)
        + flagAdjust projectContext"
proof -
  have k: "tierAdjust (keywordTier title description) =
     (let text = toLowerCase (combinedText title description)
      in if list_ex (\<lambda>keyword. str_includes text keyword) urgentKeywords then 30
         else if list_ex (\<lambda>keyword. str_includes text keyword) highKeywords then 20
         else if list_ex (\<lambda>keyword. str_includes text keyword) lowKeywords then - 20
         else 0)"
    by (simp add: keywordTier_def Let_def)
  have b: "bandAdjust (dueBand dueDate now) =
     (case dueDate of
        None \<Rightarrow> 0
      | Some due \<Rightarrow>
          (case daysUntilDue due now of
             None \<Rightarrow> 0
           | Some d \<Rightarrow>
               if d < 1 then 30
               else if d < 3 then 20
               else if d < 7 then 10
               else if d > 30 then - 10
               else 0))"
    by (simp add: dueBand_def split: option.split)
  show ?thesis
    unfolding k b
    by (simp add: calculatePrioritySuggestion_def flagAdjust_def Let_def case_prod_beta
        split: option.split)
qed

text \<open>
  The score stays within \<open>20\<close> and \<open>125\<close>: nothing clamps it to \<open>[0, 100]\<close>, and the
  contributions cannot take it below \<open>20\<close>.
\<close>

lemma priority_score_range:
  "20 \<le> score (calculatePrioritySuggestion title description dueDate projectContext now now2) \<and>
   score (calculatePrioritySuggestion title description dueDate projectContext now now2) \<le> 125"
proof -
  have "- 20 \<le> tierAdjust t \<and> tierAdjust t \<le> 30" for t
    by (cases t) simp_all
  moreover have "- 10 \<le> bandAdjust b \<and> bandAdjust b \<le> 30" for b
    by (cases b) simp_all
  moreover have "0 \<le> flagAdjust projectContext \<and> flagAdjust projectContext \<le> 15"
    by (simp add: flagAdjust_def)
  ultimately show ?thesis
    unfolding priority_score_sum
    by (smt (verit, best))
qed

text \<open>
  C4. The task titled "Critical production issue" with the description "Server is down",
  due twelve hours after the clock reading and without an urgent project, gets the score
  \<open>110\<close> and the category urgent; the score is returned as it is, not cut back to \<open>100\<close>.
\<close>

theorem priority_example_110:
  "\<not> projectUrgent projectContext \<Longrightarrow>
   (let r = calculatePrioritySuggestion ''Critical production issue'' (Some ''Server is down'')
              (Some (TimeMs (now + 12 * 60 * 60 * 1000))) projectContext now now2
    in score r = 110 \<and> priority r = ''urgent'' \<and> score r \<noteq> max 0 (min 100 (score r)))"
  by (simp add: calculatePrioritySuggestion_def js_eval urgentKeywords_def daysUntilDue_def
      Let_def)

theorem priority_example_110_witness:
  "\<not> projectUrgent (Some \<lparr>status = ''active''\<rparr>) \<and>
   score (calculatePrioritySuggestion ''Critical production issue'' (Some ''Server is down'')
            (Some (TimeMs (1700000000000 + 12 * 60 * 60 * 1000)))
            (Some \<lparr>status = ''active''\<rparr>) 1700000000000 1700000000005) = 110"
proof -
  have h: "\<not> projectUrgent (Some \<lparr>status = ''active''\<rparr>)"
    by (simp add: projectUrgent_def)
  show ?thesis
    using h priority_example_110 [OF h, of 1700000000000 1700000000005]
    by (simp add: Let_def)
qed

text \<open>
  C5. Whenever the lower-cased text holds one of the urgent keywords, no due date is given
  and the project is not urgent, the score is \<open>80\<close> and the category urgent, whatever else
  the text holds.
\<close>

theorem urgent_keyword_scores_80:
  assumes "list_ex (\<lambda>keyword. str_includes (toLowerCase (combinedText title description)) keyword)
             urgentKeywords"
    and "\<not> projectUrgent projectContext"
  shows "score (calculatePrioritySuggestion title description None projectContext now now2) = 80 \<and>
         priority (calculatePrioritySuggestion title description None projectContext now now2)
           = ''urgent''"
  using assms by (simp add: calculatePrioritySuggestion_def Let_def)

theorem urgent_keyword_scores_80_witness:
  "list_ex (\<lambda>keyword. str_includes
              (toLowerCase (combinedText ''Minor cleanup: broken client deadline'' None)) keyword)
     urgentKeywords \<and>
   list_ex (\<lambda>keyword. str_includes
              (toLowerCase (combinedText ''Minor cleanup: broken client deadline'' None)) keyword)
     highKeywords \<and>
   list_ex (\<lambda>keyword. str_includes
              (toLowerCase (combinedText ''Minor cleanup: broken client deadline'' None)) keyword)
     lowKeywords \<and>
   score (calculatePrioritySuggestion ''Minor cleanup: broken client deadline'' None None None
            0 0) = 80 \<and>
   priority (calculatePrioritySuggestion ''Minor cleanup: broken client deadline'' None None None
            0 0) = ''urgent''"
proof -
  have h1: "list_ex (\<lambda>keyword. str_includes
              (toLowerCase (combinedText ''Minor cleanup: broken client deadline'' None)) keyword)
            urgentKeywords"
    by (simp add: js_eval urgentKeywords_def)
  have h2: "\<not> projectUrgent None"
    by (simp add: projectUrgent_def)
  have h3: "list_ex (\<lambda>keyword. str_includes
              (toLowerCase (combinedText ''Minor cleanup: broken client deadline'' None)) keyword)
            highKeywords"
    by (simp add: js_eval highKeywords_def)
  have h4: "list_ex (\<lambda>keyword. str_includes
              (toLowerCase (combinedText ''Minor cleanup: broken client deadline'' None)) keyword)
            lowKeywords"
    by (simp add: js_eval lowKeywords_def)
  from urgent_keyword_scores_80 [OF h1 h2, of 0 0] h1 h3 h4 show ?thesis
    by blast
qed

lemma tierAdjust_mono: "tierRank s \<le> tierRank t \<Longrightarrow> tierAdjust s \<le> tierAdjust t"
  by (cases s; cases t) simp_all

lemma bandAdjust_mono: "bandRank a \<le> bandRank b \<Longrightarrow> bandAdjust a \<le> bandAdjust b"
  by (cases a; cases b) simp_all

lemma flagAdjust_mono:
  "(projectUrgent c \<longrightarrow> projectUrgent c') \<Longrightarrow> flagAdjust c \<le> flagAdjust c'"
  by (simp add: flagAdjust_def)

text \<open>
  C6. The score is the base plus the keyword, due-date and project contributions, and it is
  monotone in each of them with the other two held fixed: a text of a higher keyword tier
  (low, none, high, urgent), a due date in a nearer band (over 30 days, other, under 7 days,
  under 3 days, under 1 day), or an urgent project in place of a non-urgent one, never
  lowers the score.
\<close>

theorem priority_score_monotone:
  "score (calculatePrioritySuggestion title description dueDate projectContext now later) =
     50 + tierAdjust (keywordTier title description) + bandAdjust (dueBand dueDate now)
        + flagAdjust projectContext \<and>
   (tierRank (keywordTier title description) \<le> tierRank (keywordTier title' description') \<longrightarrow>
      score (calculatePrioritySuggestion title description dueDate projectContext now later)
      \<le> score (calculatePrioritySuggestion title' description' dueDate projectContext now later)) \<and>
   (bandRank (dueBand dueDate now) \<le> bandRank (dueBand dueDate' now') \<longrightarrow>
      score (calculatePrioritySuggestion title description dueDate projectContext now later)
      \<le> score (calculatePrioritySuggestion title description dueDate' projectContext now' later')) \<and>
   ((projectUrgent projectContext \<longrightarrow> projectUrgent projectContext') \<longrightarrow>
      score (calculatePrioritySuggestion title description dueDate projectContext now later)
      \<le> score (calculatePrioritySuggestion title description dueDate projectContext' now later))"
  unfolding priority_score_sum
  using tierAdjust_mono [of "keywordTier title description" "keywordTier title' description'"]
    bandAdjust_mono [of "dueBand dueDate now" "dueBand dueDate' now'"]
    flagAdjust_mono [of projectContext projectContext']
  by simp

theorem priority_score_monotone_witness:
  "tierRank (keywordTier ''Minor cleanup'' None)
     \<le> tierRank (keywordTier ''Client deadline'' None) \<and>
   bandRank (dueBand (Some (TimeMs 3456000000)) 0)
     \<le> bandRank (dueBand (Some (TimeMs 172800000)) 0) \<and>
   \<not> projectUrgent None \<and> projectUrgent (Some \<lparr>status = ''urgent''\<rparr>) \<and>
   score (calculatePrioritySuggestion ''Minor cleanup'' None None None 0 0)
     \<le> score (calculatePrioritySuggestion ''Client deadline'' None None None 0 0) \<and>
   score (calculatePrioritySuggestion ''Minor cleanup'' None (Some (TimeMs 3456000000)) None 0 0)
     \<le> score (calculatePrioritySuggestion ''Minor cleanup'' None (Some (TimeMs 172800000))
            None 0 0) \<and>
   score (calculatePrioritySuggestion ''Minor cleanup'' None None None 0 0)
     \<le> score (calculatePrioritySuggestion ''Minor cleanup'' None None
            (Some \<lparr>status = ''urgent''\<rparr>) 0 0)"
proof -
  have h1: "tierRank (keywordTier ''Minor cleanup'' None)
              \<le> tierRank (keywordTier ''Client deadline'' None)"
    by (simp add: keywordTier_def js_eval urgentKeywords_def highKeywords_def lowKeywords_def)
  have h2: "bandRank (dueBand (Some (TimeMs 3456000000)) 0)
              \<le> bandRank (dueBand (Some (TimeMs 172800000)) 0)"
    by (simp add: dueBand_def daysUntilDue_def)
  have h3: "projectUrgent None \<longrightarrow> projectUrgent (Some \<lparr>status = ''urgent''\<rparr>)"
    by (simp add: projectUrgent_def)
  note m1 = priority_score_monotone [where title = "''Minor cleanup''" and description = None
      and title' = "''Client deadline''" and description' = None and dueDate = None
      and projectContext = None and now = 0 and later = 0,
      THEN conjunct2, THEN conjunct1, THEN mp, OF h1]
  note m2 = priority_score_monotone [where title = "''Minor cleanup''" and description = None
      and dueDate = "Some (TimeMs 3456000000)" and dueDate' = "Some (TimeMs 172800000)"
      and projectContext = None and now = 0 and now' = 0 and later = 0 and later' = 0,
      THEN conjunct2, THEN conjunct2, THEN conjunct1, THEN mp, OF h2]
  note m3 = priority_score_monotone [where title = "''Minor cleanup''" and description = None and dueDate = None
      and projectContext = None and projectContext' = "Some \<lparr>status = ''urgent''\<rparr>"
      and now = 0 and later = 0,
      THEN conjunct2, THEN conjunct2, THEN conjunct2, THEN mp, OF h3]
  have flags: "\<not> projectUrgent None" "projectUrgent (Some \<lparr>status = ''urgent''\<rparr>)"
    by (simp_all add: projectUrgent_def)
  from h1 h2 flags m1 m2 m3 show ?thesis by blast
qed

subsection \<open>Time estimator\<close>

text \<open>
  C7. For the title "Implement user authentication" with at most fifty words in the
  combined text, priority high, type feature and an empty sample, the estimate is
  \<open>4 \<times> 1.3 \<times> 1.2 = 6.24\<close> hours, split into 6 hours and 14 minutes, with confidence
  \<open>0.6\<close>.
\<close>

theorem time_example_6h14:
  "wordCount ''Implement user authentication'' description \<le> 50 \<Longrightarrow>
   (let r = calculateTimeEstimation ''Implement user authentication'' description ''high''
              ''feature'' []
    in totalHours r = 4 * (13 / 10) * (12 / 10) \<and> totalHours r = 624 / 100 \<and>
       hours r = 6 \<and> minutes r = 14 \<and> confidenceT r = 6 / 10)"
  by (simp add: calculateTimeEstimation_def Let_def multiplierOf_def priorityMultipliers_def
      typeMultipliers_def round_def)

theorem time_example_6h14_witness:
  "wordCount ''Implement user authentication'' None \<le> 50 \<and>
   hours (calculateTimeEstimation ''Implement user authentication'' None ''high'' ''feature''
            []) = 6 \<and>
   minutes (calculateTimeEstimation ''Implement user authentication'' None ''high'' ''feature''
            []) = 14"
proof -
  have h: "wordCount ''Implement user authentication'' None \<le> 50"
    by (simp add: wordCount_def js_eval)
  from time_example_6h14 [OF h] h show ?thesis
    by (simp add: Let_def)
qed

text \<open>
  C10. Nothing bounds the estimate from below. On the one-row sample whose completion
  precedes its creation by ten hours, the mean elapsed time is \<open>-10\<close> hours, the blended
  total \<open>(4 + (-10)) / 2 = -3\<close> hours, and the hours field its floor, \<open>-3\<close>.
\<close>

theorem time_estimate_negative:
  "(let sample = [\<lparr>created_at = 36000000, completed_at = 0\<rparr>];
        r = calculateTimeEstimation ''Fix login'' None ''medium'' ''general'' sample
    in sample \<noteq> [] \<and> list_all (\<lambda>task. completed_at task < created_at task) sample \<and>
       elapsedHoursSum sample / real (length sample) = - 10 \<and>
       totalHours r = - 3 \<and> totalHours r < 0 \<and> hours r = - 3 \<and> hours r < 0)"
  by (simp add: calculateTimeEstimation_def Let_def multiplierOf_def priorityMultipliers_def
      typeMultipliers_def round_def elapsedHoursSum_def wordCount_def js_eval)

subsection \<open>Assignee ranker\<close>

lemma matchedSkills_Nil: "matchedSkills title description [] m = []"
  by (simp add: matchedSkills_def)

text \<open>The score of one member, written as one expression.\<close>

lemma suggestionFor_score:
  "scoreA (suggestionFor title description skillsRequired m) =
     max 0 (min 100
       (50 - int (activeTaskCount m) * 5 + min (int (totalTaskCount m) * 2) 20
          + (if role m = ''owner'' then 10 else if role m = ''admin'' then 5 else 0)
          + int (length (matchedSkills title description skillsRequired m)) * 10))"
proof -
  have skills: "(if length skillsRequired > 0
                 then s + int (length (matchedSkills title description skillsRequired m)) * 10
                 else s)
                = s + int (length (matchedSkills title description skillsRequired m)) * 10" for s
    by (cases skillsRequired) (simp_all add: matchedSkills_Nil)
  have roles: "(if role m = ''owner'' then s + 10 else if role m = ''admin'' then s + 5 else s)
               = s + (if role m = ''owner'' then 10 else if role m = ''admin'' then 5 else 0)"
    for s :: int
    by simp
  have "scoreA (suggestionFor title description skillsRequired m) =
     max 0 (min 100
       ((if role m = ''owner''
         then 50 - int (activeTaskCount m) * 5 + min (int (totalTaskCount m) * 2) 20 + 10
         else if role m = ''admin''
         then 50 - int (activeTaskCount m) * 5 + min (int (totalTaskCount m) * 2) 20 + 5
         else 50 - int (activeTaskCount m) * 5 + min (int (totalTaskCount m) * 2) 20)
        + int (length (matchedSkills title description skillsRequired m)) * 10))"
    unfolding suggestionFor_def Let_def assignee_suggestion.simps skills ..
  then show ?thesis
    unfolding roles .
qed

lemma suggestionFor_score_range:
  "0 \<le> scoreA (suggestionFor title description skillsRequired m) \<and>
   scoreA (suggestionFor title description skillsRequired m) \<le> 100"
  unfolding suggestionFor_score by simp

lemma assignee_suggestions_subset:
  "set (calculateAssigneeSuggestions title description skillsRequired members)
     \<subseteq> suggestionFor title description skillsRequired ` set members"
proof -
  have "set (take 5 (sort_key (\<lambda>s. - scoreA s)
               (map (suggestionFor title description skillsRequired) members)))
        \<subseteq> set (sort_key (\<lambda>s. - scoreA s)
               (map (suggestionFor title description skillsRequired) members))"
    by (rule set_take_subset)
  then show ?thesis
    by (simp add: calculateAssigneeSuggestions_def Let_def)
qed

text \<open>
  C8. Every suggestion the ranker returns has a score between \<open>0\<close> and \<open>100\<close>, whatever
  the task counts of the roster: the score of a member is the sum of the base, the workload
  penalty, the capped experience bonus, the role bonus and the skill bonus, clamped at both
  ends.
\<close>

theorem assignee_score_clamped:
  "(\<forall>s \<in> set (calculateAssigneeSuggestions title description skillsRequired members).
      0 \<le> scoreA s \<and> scoreA s \<le> 100) \<and>
   scoreA (suggestionFor title description skillsRequired m) =
     max 0 (min 100
       (50 - int (activeTaskCount m) * 5 + min (int (totalTaskCount m) * 2) 20
          + (if role m = ''owner'' then 10 else if role m = ''admin'' then 5 else 0)
          + int (length (matchedSkills title description skillsRequired m)) * 10))"
  using suggestionFor_score_range assignee_suggestions_subset suggestionFor_score
  by blast

theorem assignee_score_clamped_witness:
  "suggestionFor ''Build API'' None [''defined''] swampedMember
     \<in> set (calculateAssigneeSuggestions ''Build API'' None [''defined'']
              [swampedMember, veteranOwner]) \<and>
   suggestionFor ''Build API'' None [''defined''] veteranOwner
     \<in> set (calculateAssigneeSuggestions ''Build API'' None [''defined'']
              [swampedMember, veteranOwner]) \<and>
   0 \<le> scoreA (suggestionFor ''Build API'' None [''defined''] swampedMember) \<and>
   scoreA (suggestionFor ''Build API'' None [''defined''] veteranOwner) \<le> 100"
proof -
  have members:
    "set (calculateAssigneeSuggestions ''Build API'' None [''defined'']
            [swampedMember, veteranOwner])
     = {suggestionFor ''Build API'' None [''defined''] swampedMember,
        suggestionFor ''Build API'' None [''defined''] veteranOwner}"
    by (auto simp: calculateAssigneeSuggestions_def Let_def)
  have h1: "suggestionFor ''Build API'' None [''defined''] swampedMember
     \<in> set (calculateAssigneeSuggestions ''Build API'' None [''defined'']
              [swampedMember, veteranOwner])"
    unfolding members by simp
  have h2: "suggestionFor ''Build API'' None [''defined''] veteranOwner
     \<in> set (calculateAssigneeSuggestions ''Build API'' None [''defined'']
              [swampedMember, veteranOwner])"
    unfolding members by simp
  note range = assignee_score_clamped [where title = "''Build API''" and description = None
      and skillsRequired = "[''defined'']" and members = "[swampedMember, veteranOwner]",
      THEN conjunct1, rule_format]
  from range [OF h1] range [OF h2] h1 h2 show ?thesis
    by blast
qed

text \<open>
  What the clamp does at the two ends, on the sample roster: the member with
  \<open>10\<^sup>1\<^sup>2\<close> active tasks scores \<open>0\<close>, the owner with \<open>10\<^sup>1\<^sup>2\<close> total tasks and two
  matching skills scores \<open>100\<close>.
\<close>

lemma assignee_clamp_ends:
  "scoreA (suggestionFor ''Build API'' None [''defined''] swampedMember) = 0 \<and>
   scoreA (suggestionFor ''Build API'' None [''defined'', ''API'', ''owner''] veteranOwner) = 100"
  by (simp add: suggestionFor_score matchedSkills_def swampedMember_def veteranOwner_def
      js_eval)

text \<open>
  C2, as the code has it. The claim lets a skill that occurs both in the task text and in
  the user name add \<open>20\<close>. On the task "Build API" with the skill \<open>API\<close> and the member
  \<open>api_guru\<close> the skill occurs in both places, and the score rises from \<open>50\<close> to \<open>60\<close>,
  not to \<open>70\<close>.
\<close>

theorem skill_in_text_and_name_counts_once:
  "str_includes (toLowerCase (combinedText ''Build API'' (Some ''REST endpoints'')))
     (toLowerCase ''API'') \<and>
   str_includes (toLowerCase (username apiGuru)) (toLowerCase ''API'') \<and>
   scoreA (suggestionFor ''Build API'' (Some ''REST endpoints'') [] apiGuru) = 50 \<and>
   scoreA (suggestionFor ''Build API'' (Some ''REST endpoints'') [''API''] apiGuru) = 60 \<and>
   scoreA (suggestionFor ''Build API'' (Some ''REST endpoints'') [''API''] apiGuru) \<noteq> 50 + 20"
  by (simp add: suggestionFor_score matchedSkills_def apiGuru_def js_eval)

lemma filter_bonus:
  "int (length (filter P xs)) * 10 = (\<Sum>x\<leftarrow>xs. if P x then 10 else 0)"
  by (induction xs) simp_all

text \<open>
  C2, amended. Before the clamp, every entry of the list of required skills adds \<open>10\<close>
  exactly when its lower-cased form occurs in the task text or in the member's user name,
  and \<open>0\<close> otherwise: an entry that occurs in both places adds \<open>10\<close> once, and the bonus is
  the sum over the entries of the list.
\<close>

theorem skill_bonus_once_per_entry:
  "scoreA (suggestionFor title description skillsRequired m) =
     max 0 (min 100
       (50 - int (activeTaskCount m) * 5 + min (int (totalTaskCount m) * 2) 20
          + (if role m = ''owner'' then 10 else if role m = ''admin'' then 5 else 0)
          + (\<Sum>skill\<leftarrow>skillsRequired.
               if str_includes (toLowerCase (combinedText title description))
                    (toLowerCase skill) \<or>
                  str_includes (toLowerCase (username m)) (toLowerCase skill)
               then 10 else 0)))"
  unfolding suggestionFor_score
  by (simp add: matchedSkills_def Let_def filter_bonus)

subsection \<open>Task decomposer\<close>

lemma fillSubtasks_full: "\<not> length sts < n \<Longrightarrow> fillSubtasks rnd k n sts = sts"
  by (subst fillSubtasks.simps) simp

lemma fillSubtasks_length:
  "length sts \<le> n \<Longrightarrow> length (fillSubtasks rnd k n sts) \<le> n"
proof (induction rnd k n sts rule: fillSubtasks.induct)
  case (1 rnd k subtaskCount sts)
  show ?case
  proof (cases "length sts < subtaskCount \<and> remainingSubtasks sts \<noteq> []")
    case True
    then show ?thesis
      using "1.IH" by (subst fillSubtasks.simps) simp
  next
    case False
    then show ?thesis
      using "1.prems" by (subst fillSubtasks.simps) auto
  qed
qed

lemma foldl_hours:
  "foldl (\<lambda>sum task. sum + estimatedHours task) a sts = a + sum_list (map estimatedHours sts)"
  by (induction sts arbitrary: a) simp_all

text \<open>
  The total reported is the sum over every subtask generated. It is the sum over the
  subtasks returned whenever the target count is a number and the contextual subtasks,
  three for each group of trigger words the text holds, do not outnumber it.
\<close>

lemma breakdown_total_when_not_truncated:
  assumes "subtaskCountOf complexity' = Some n"
    and "(if str_includes (toLowerCase (combinedText title description)) ''api'' \<or>
               str_includes (toLowerCase (combinedText title description)) ''backend''
            then 3 else 0)
         + (if str_includes (toLowerCase (combinedText title description)) ''ui'' \<or>
               str_includes (toLowerCase (combinedText title description)) ''frontend''
            then 3 else 0)
         + (if str_includes (toLowerCase (combinedText title description)) ''database'' \<or>
               str_includes (toLowerCase (combinedText title description)) ''data''
            then 3 else (0::nat))
         \<le> n"
  shows "totalEstimatedHours (generateTaskBreakdown rnd title description complexity') =
         sum_list (map estimatedHours
           (subtasks (generateTaskBreakdown rnd title description complexity')))"
proof -
  define lowered where "lowered = toLowerCase (combinedText title description)"
  define sts3 where "sts3 =
     (if str_includes lowered ''api'' \<or> str_includes lowered ''backend'' then apiSubtasks else [])
     @ (if str_includes lowered ''ui'' \<or> str_includes lowered ''frontend'' then uiSubtasks else [])
     @ (if str_includes lowered ''database'' \<or> str_includes lowered ''data'' then dataSubtasks
        else [])"
  have three: "length apiSubtasks = 3" "length uiSubtasks = 3" "length dataSubtasks = 3"
    by (simp_all add: apiSubtasks_def uiSubtasks_def dataSubtasks_def)
  have "length sts3 =
      (if str_includes lowered ''api'' \<or> str_includes lowered ''backend'' then 3 else 0)
    + (if str_includes lowered ''ui'' \<or> str_includes lowered ''frontend'' then 3 else 0)
    + (if str_includes lowered ''database'' \<or> str_includes lowered ''data'' then 3 else 0)"
    unfolding sts3_def length_append if_distrib [of length] three list.size by simp
  with assms(2) have len: "length sts3 \<le> n"
    unfolding lowered_def by simp
  have gen: "generateTaskBreakdown rnd title description complexity' =
      \<lparr> subtasks = take n (fillSubtasks rnd 0 n sts3),
        totalEstimatedHours =
          foldl (\<lambda>sum task. sum + estimatedHours task) 0 (fillSubtasks rnd 0 n sts3),
        complexityEcho = complexity',
        confidenceB = 7 / 10,
        recommendations =
          [''Start with high-priority subtasks'',
           ''Consider breaking down large subtasks further'',
           ''Review estimates after beginning work'',
           ''Update progress regularly''] \<rparr>"
    unfolding generateTaskBreakdown_def Let_def sts3_def lowered_def assms(1) by simp
  show ?thesis
    unfolding gen using fillSubtasks_length [OF len, of rnd 0]
    by (simp add: foldl_hours)
qed

text \<open>
  C3, on the code. For the task "Build API" with the description "REST endpoints" and
  the complexity low, the text holds \<open>api\<close> and, inside \<open>build\<close>, \<open>ui\<close>: six subtasks
  are generated, the first three are returned, their hours sum to \<open>8\<close>, and the total
  reported is \<open>16\<close>, the sum over all six.
\<close>

theorem breakdown_total_exceeds_returned:
  "length (subtasks (generateTaskBreakdown rnd ''Build API'' (Some ''REST endpoints'')
                       ''low'')) = 3 \<and>
   sum_list (map estimatedHours
     (subtasks (generateTaskBreakdown rnd ''Build API'' (Some ''REST endpoints'') ''low'')))
     = 8 \<and>
   totalEstimatedHours (generateTaskBreakdown rnd ''Build API'' (Some ''REST endpoints'')
                          ''low'') = 16"
  by (simp add: generateTaskBreakdown_def Let_def subtaskCountOf_def complexityMap_def js_eval
      apiSubtasks_def uiSubtasks_def dataSubtasks_def fillSubtasks_full)

subsection \<open>An omitted description\<close>

lemma splitSpace_not_Nil: "splitSpace s \<noteq> []"
  by (induction s) (auto split: list.split)

lemma length_splitSpace:
  "length (splitSpace s) = Suc (length (filter (\<lambda>c. c = CHR '' '') s))"
proof (induction s)
  case Nil
  show ?case by simp
next
  case (Cons c cs)
  then show ?case
    using splitSpace_not_Nil [of cs] by (cases "splitSpace cs") auto
qed

lemma str_includes_append: "str_includes ys k \<Longrightarrow> str_includes (xs @ ys) k"
  by (induction xs) auto

lemma lower_undefined:
  "toLowerCase (combinedText title None) = toLowerCase title @ '' undefined''"
  by (simp add: js_eval)

lemma wordCount_undefined: "wordCount title None = length (splitSpace title) + 1"
  by (simp add: wordCount_def combinedText_def jsString_def length_splitSpace)

lemma spaces_of_words:
  "length (filter (\<lambda>c. c = CHR '' '') (concat (replicate n ''a ''))) = n"
  by (induction n) simp_all

lemma sample_titles:
  "length (splitSpace fortyNineWords) = 49" "length (splitSpace fiftyWords) = 50"
  by (simp_all add: fortyNineWords_def fiftyWords_def length_splitSpace spaces_of_words)

text \<open>
  The estimate for the priority medium, the type general and an empty sample, by the
  number of words counted.
\<close>

lemma plain_estimate:
  "totalHours (calculateTimeEstimation title description ''medium'' ''general'' []) =
     4 + (if 50 < wordCount title description then 2 else 0)
       + (if 100 < wordCount title description then 2 else 0)"
  by (simp add: calculateTimeEstimation_def Let_def multiplierOf_def priorityMultipliers_def
      typeMultipliers_def)

lemma estimate_complexity:
  "complexity (factorsT (calculateTimeEstimation title description priority' taskType
                           historicalTasks)) =
     (if 50 < wordCount title description then ''high'' else ''medium'')"
  by (simp add: calculateTimeEstimation_def Let_def)

text \<open>
  C9. When the description is omitted, every helper analyses the title followed by a space
  and the word \<open>undefined\<close>.
  \<^item> Time estimator: the words counted are the space-separated pieces of the title and
    one more. The complexity reported is high exactly when the title has fifty pieces or
    more, and a title of fifty words is estimated at \<open>6\<close> hours where one of forty-nine
    words is estimated at \<open>4\<close>.
  \<^item> Priority scorer: the keyword adjustment of the score is decided by matching the
    keywords against the lower-cased title followed by \<open>undefined\<close>.
  \<^item> Assignee ranker: a required skill is matched against the lower-cased title followed
    by \<open>undefined\<close> (or the user name), so the skills \<open>fine\<close> and \<open>defined\<close> match every
    such task, whoever the member is: for the task "Build API" and the member \<open>api_guru\<close>
    the skill \<open>fine\<close> gives the score \<open>60\<close> with the description omitted and \<open>50\<close> with the
    description "REST endpoints".
  \<^item> Task decomposer: the contextual subtasks are decided by searching the lower-cased
    title followed by \<open>undefined\<close>.
\<close>

theorem omitted_description_reads_undefined:
  "toLowerCase (combinedText title None) = toLowerCase title @ '' undefined'' \<and>
   wordCount title None = length (splitSpace title) + 1 \<and>
   complexity (factorsT (calculateTimeEstimation title None priority' taskType
                           historicalTasks)) =
     (if 50 \<le> length (splitSpace title) then ''high'' else ''medium'') \<and>
   totalHours (calculateTimeEstimation title None ''medium'' ''general'' []) =
     4 + (if 50 \<le> length (splitSpace title) then 2 else 0)
       + (if 100 \<le> length (splitSpace title) then 2 else 0) \<and>
   length (splitSpace fortyNineWords) = 49 \<and>
   totalHours (calculateTimeEstimation fortyNineWords None ''medium'' ''general'' []) = 4 \<and>
   length (splitSpace fiftyWords) = 50 \<and>
   totalHours (calculateTimeEstimation fiftyWords None ''medium'' ''general'' []) = 6 \<and>
   complexity (factorsT (calculateTimeEstimation fiftyWords None ''medium'' ''general'' []))
     = ''high'' \<and>
   score (calculatePrioritySuggestion title None dueDate projectContext now now2) =
     50
     + (if list_ex (\<lambda>keyword. str_includes (toLowerCase title @ '' undefined'') keyword)
             urgentKeywords then 30
        else if list_ex (\<lambda>keyword. str_includes (toLowerCase title @ '' undefined'') keyword)
             highKeywords then 20
        else if list_ex (\<lambda>keyword. str_includes (toLowerCase title @ '' undefined'') keyword)
             lowKeywords then - 20
        else 0)
     + bandAdjust (dueBand dueDate now) + flagAdjust projectContext \<and>
   scoreA (suggestionFor title None skillsRequired m) =
     max 0 (min 100
       (50 - int (activeTaskCount m) * 5 + min (int (totalTaskCount m) * 2) 20
          + (if role m = ''owner'' then 10 else if role m = ''admin'' then 5 else 0)
          + (\<Sum>skill\<leftarrow>skillsRequired.
               if str_includes (toLowerCase title @ '' undefined'') (toLowerCase skill) \<or>
                  str_includes (toLowerCase (username m)) (toLowerCase skill)
               then 10 else 0))) \<and>
   matchedSkills title None [''fine''] m = [''fine''] \<and>
   matchedSkills title None [''defined''] m = [''defined''] \<and>
   map scoreA (calculateAssigneeSuggestions ''Build API'' None [''fine''] [apiGuru]) = [60] \<and>
   map scoreA (calculateAssigneeSuggestions ''Build API'' (Some ''REST endpoints'') [''fine'']
                 [apiGuru]) = [50] \<and>
   subtasks (generateTaskBreakdown rnd title None ''low'') =
     (if str_includes (toLowerCase title @ '' undefined'') ''api'' \<or>
         str_includes (toLowerCase title @ '' undefined'') ''backend'' then apiSubtasks
      else if str_includes (toLowerCase title @ '' undefined'') ''ui'' \<or>
         str_includes (toLowerCase title @ '' undefined'') ''frontend'' then uiSubtasks
      else if str_includes (toLowerCase title @ '' undefined'') ''database'' \<or>
         str_includes (toLowerCase title @ '' undefined'') ''data'' then dataSubtasks
      else take 3 (fillSubtasks rnd 0 3 []))"
proof -
  have time1: "complexity (factorsT (calculateTimeEstimation title None priority' taskType
                           historicalTasks)) =
     (if 50 \<le> length (splitSpace title) then ''high'' else ''medium'')"
    unfolding estimate_complexity wordCount_undefined by simp
  have time2: "totalHours (calculateTimeEstimation title None ''medium'' ''general'' []) =
     4 + (if 50 \<le> length (splitSpace title) then 2 else 0)
       + (if 100 \<le> length (splitSpace title) then 2 else 0)" for title
    unfolding plain_estimate wordCount_undefined by simp
  have time3: "totalHours (calculateTimeEstimation fortyNineWords None ''medium'' ''general'' [])
               = 4"
    "totalHours (calculateTimeEstimation fiftyWords None ''medium'' ''general'' []) = 6"
    "complexity (factorsT (calculateTimeEstimation fiftyWords None ''medium'' ''general'' []))
       = ''high''"
    unfolding time2 estimate_complexity wordCount_undefined sample_titles by simp_all
  have prio: "score (calculatePrioritySuggestion title None dueDate projectContext now now2) =
     50
     + (if list_ex (\<lambda>keyword. str_includes (toLowerCase title @ '' undefined'') keyword)
             urgentKeywords then 30
        else if list_ex (\<lambda>keyword. str_includes (toLowerCase title @ '' undefined'') keyword)
             highKeywords then 20
        else if list_ex (\<lambda>keyword. str_includes (toLowerCase title @ '' undefined'') keyword)
             lowKeywords then - 20
        else 0)
     + bandAdjust (dueBand dueDate now) + flagAdjust projectContext"
    unfolding priority_score_sum keywordTier_def Let_def lower_undefined by simp
  have skills: "scoreA (suggestionFor title None skillsRequired m) =
     max 0 (min 100
       (50 - int (activeTaskCount m) * 5 + min (int (totalTaskCount m) * 2) 20
          + (if role m = ''owner'' then 10 else if role m = ''admin'' then 5 else 0)
          + (\<Sum>skill\<leftarrow>skillsRequired.
               if str_includes (toLowerCase title @ '' undefined'') (toLowerCase skill) \<or>
                  str_includes (toLowerCase (username m)) (toLowerCase skill)
               then 10 else 0)))"
    unfolding suggestionFor_score matchedSkills_def Let_def lower_undefined filter_bonus ..
  have fine: "str_includes (toLowerCase (combinedText title None)) (toLowerCase ''fine'')"
    unfolding lower_undefined by (rule str_includes_append) (simp add: js_eval)
  have defined: "str_includes (toLowerCase (combinedText title None)) (toLowerCase ''defined'')"
    unfolding lower_undefined by (rule str_includes_append) (simp add: js_eval)
  have m1: "matchedSkills title None [''fine''] m = [''fine'']"
    using fine by (simp add: matchedSkills_def Let_def)
  have m2: "matchedSkills title None [''defined''] m = [''defined'']"
    using defined by (simp add: matchedSkills_def Let_def)
  have one: "calculateAssigneeSuggestions t d sk [x] = [suggestionFor t d sk x]" for t d sk x
    by (simp add: calculateAssigneeSuggestions_def Let_def)
  have s60: "map scoreA (calculateAssigneeSuggestions ''Build API'' None [''fine''] [apiGuru])
             = [60]"
    unfolding one by (simp add: suggestionFor_score matchedSkills_def apiGuru_def js_eval)
  have s50: "map scoreA (calculateAssigneeSuggestions ''Build API'' (Some ''REST endpoints'')
                [''fine''] [apiGuru]) = [50]"
    unfolding one by (simp add: suggestionFor_score matchedSkills_def apiGuru_def js_eval)
  have low: "subtaskCountOf ''low'' = Some 3"
    by (simp add: subtaskCountOf_def complexityMap_def)
  have three: "length apiSubtasks = 3" "length uiSubtasks = 3" "length dataSubtasks = 3"
    by (simp_all add: apiSubtasks_def uiSubtasks_def dataSubtasks_def)
  have decomposer: "subtasks (generateTaskBreakdown rnd title None ''low'') =
     (if str_includes (toLowerCase title @ '' undefined'') ''api'' \<or>
         str_includes (toLowerCase title @ '' undefined'') ''backend'' then apiSubtasks
      else if str_includes (toLowerCase title @ '' undefined'') ''ui'' \<or>
         str_includes (toLowerCase title @ '' undefined'') ''frontend'' then uiSubtasks
      else if str_includes (toLowerCase title @ '' undefined'') ''database'' \<or>
         str_includes (toLowerCase title @ '' undefined'') ''data'' then dataSubtasks
      else take 3 (fillSubtasks rnd 0 3 []))"
    unfolding generateTaskBreakdown_def Let_def low lower_undefined
    by (simp add: fillSubtasks_full three)
  from lower_undefined wordCount_undefined time1 time2 sample_titles time3 prio skills m1 m2
    s60 s50 decomposer
  show ?thesis
    by (intro conjI)
qed

subsection \<open>The audit row\<close>

lemma checkAccess_insert [simp]:
  "checkAccess (db\<lparr>insertSuggestion := ins\<rparr>) projectId userId = checkAccess db projectId userId"
  by (simp add: checkAccess_def)

lemma memberWorkloads_insert [simp]:
  "memberWorkloads (db\<lparr>insertSuggestion := ins\<rparr>) ms = memberWorkloads db ms"
  by (induction ms) (simp_all split: sum.splits)

lemma handler_fails:
  "(\<And>ins. handler (db\<lparr>insertSuggestion := ins\<rparr>) = (Inl e, tbl))
     \<Longrightarrow> failsBeforeInsert handler db tbl \<or> submitsOneRow handler db userId kind tbl"
  unfolding failsBeforeInsert_def by blast

lemma respond_cases:
  "(case inserted of
      (Inl e, tbl') \<Rightarrow> respond s c inserted = (Inl e, tbl')
    | (Inr [], tbl') \<Rightarrow> (\<exists>e. respond s c inserted = (Inl e, tbl'))
    | (Inr (row # rest), tbl') \<Rightarrow>
        respond s c inserted =
          (Inr \<lparr> data = s, projectMemberCount = c, suggestionId = row_id row \<rparr>, tbl'))"
  by (simp add: respond_def split: prod.split sum.split list.split)

lemma handler_stores:
  assumes "\<And>ins. handler (db\<lparr>insertSuggestion := ins\<rparr>) = respond s c (ins tbl r)"
    and "ins_user_id r = userId"
    and "ins_suggestion_type r = kind"
    and "payload (ins_content r) = s"
  shows "failsBeforeInsert handler db tbl \<or> submitsOneRow handler db userId kind tbl"
proof -
  have "case ins tbl r of
          (Inl e, tbl') \<Rightarrow> handler (db\<lparr>insertSuggestion := ins\<rparr>) = (Inl e, tbl')
        | (Inr [], tbl') \<Rightarrow> (\<exists>e. handler (db\<lparr>insertSuggestion := ins\<rparr>) = (Inl e, tbl'))
        | (Inr (row # rest), tbl') \<Rightarrow>
            handler (db\<lparr>insertSuggestion := ins\<rparr>) =
              (Inr \<lparr> data = s, projectMemberCount = c, suggestionId = row_id row \<rparr>, tbl')"
    for ins
    unfolding assms(1) by (rule respond_cases)
  with assms(2,3,4) have "submitsOneRow handler db userId kind tbl"
    unfolding submitsOneRow_def by blast
  then show ?thesis ..
qed

lemma estimateTime_runs:
  "failsBeforeInsert (\<lambda>d. estimateTime d clock userId b tbl) db tbl \<or>
   submitsOneRow (\<lambda>d. estimateTime d clock userId b tbl) db userId ''time_estimation''
     tbl"
proof (cases "b_title b")
  case None
  then show ?thesis
    by (intro handler_fails) (simp add: estimateTime_def Let_def)
next
  case (Some title)
  show ?thesis
  proof (cases "title = []")
    case True
    with Some show ?thesis
      by (intro handler_fails) (simp add: estimateTime_def Let_def)
  next
    case False
    show ?thesis
    proof (cases "completedTasksOf db userId")
      case (Inl e)
      with Some False show ?thesis
        by (intro handler_fails) (simp add: estimateTime_def Let_def)
    next
      case (Inr completedTasks)
      with Some False show ?thesis
        by (intro handler_stores [where
              s = "TimeS (calculateTimeEstimation title (b_description b)
                     (withDefault (b_priority b) ''medium'')
                     (withDefault (b_taskType b) ''general'') completedTasks)"])
          (simp add: estimateTime_def Let_def, simp_all)
    qed
  qed
qed

lemma suggestPriority_runs:
  "failsBeforeInsert (\<lambda>d. suggestPriority d clock userId b tbl) db tbl \<or>
   submitsOneRow (\<lambda>d. suggestPriority d clock userId b tbl) db userId ''priority''
     tbl"
proof (cases "b_title b")
  case None
  then show ?thesis
    by (intro handler_fails) (simp add: suggestPriority_def Let_def)
next
  case (Some title)
  show ?thesis
  proof (cases "title = []")
    case True
    with Some show ?thesis
      by (intro handler_fails) (simp add: suggestPriority_def Let_def)
  next
    case False
    define context' where "context' =
      (case b_projectId b of
         None \<Rightarrow> Inr None
       | Some pid \<Rightarrow>
           if pid = [] then Inr None
           else (case checkAccess db pid userId of
                   Inl e \<Rightarrow> Inl e
                 | Inr _ \<Rightarrow> findProject db pid))"
    have ctx: "(case b_projectId b of
         None \<Rightarrow> Inr None
       | Some pid \<Rightarrow>
           if pid = [] then Inr None
           else (case checkAccess (db\<lparr>insertSuggestion := ins\<rparr>) pid userId of
                   Inl e \<Rightarrow> Inl e
                 | Inr _ \<Rightarrow> findProject (db\<lparr>insertSuggestion := ins\<rparr>) pid)) = context'"
      for ins
      by (simp add: context'_def split: option.split sum.split)
    show ?thesis
    proof (cases context')
      case (Inl e)
      with Some False show ?thesis
        by (intro handler_fails) (simp add: suggestPriority_def Let_def ctx)
    next
      case ctxOk: (Inr projectContext)
      show ?thesis
      proof (cases "userTasksOf db userId")
        case (Inl e)
        with Some False ctxOk show ?thesis
          by (intro handler_fails) (simp add: suggestPriority_def Let_def ctx)
      next
        case (Inr userTasks)
        with Some False ctxOk show ?thesis
          by (intro handler_stores [where
                s = "PriorityS (calculatePrioritySuggestion title (b_description b)
                       (b_dueDate b) projectContext (clock 0) (clock 1))"])
            (simp add: suggestPriority_def Let_def ctx, simp_all)
      qed
    qed
  qed
qed


lemma suggestAssignee_runs:
  "failsBeforeInsert (\<lambda>d. suggestAssignee d clock userId b tbl) db tbl \<or>
   submitsOneRow (\<lambda>d. suggestAssignee d clock userId b tbl) db userId ''assignee''
     tbl"
proof -
  consider (missing) "b_title b = None \<or> b_projectId b = None \<or> b_title b = Some [] \<or>
                      b_projectId b = Some []"
    | (given) title projectId where "b_title b = Some title" "b_projectId b = Some projectId"
        "title \<noteq> []" "projectId \<noteq> []"
    by (cases "b_title b"; cases "b_projectId b") auto
  then show ?thesis
  proof cases
    case missing
    then show ?thesis
      by (intro handler_fails [where e = "AppError ''Task title and project ID are required'' 400"])
        (auto simp: suggestAssignee_def Let_def split: option.splits)
  next
    case given
    show ?thesis
    proof (cases "checkAccess db projectId userId")
      case (Inl e)
      with given show ?thesis
        by (intro handler_fails) (simp add: suggestAssignee_def Let_def)
    next
      case access: (Inr u)
      show ?thesis
      proof (cases "activeMembersOf db projectId")
        case (Inl e)
        with given access show ?thesis
          by (intro handler_fails) (simp add: suggestAssignee_def Let_def)
      next
        case members: (Inr projectMembers)
        show ?thesis
        proof (cases "memberWorkloads db projectMembers")
          case (Inl e)
          with given access members show ?thesis
            by (intro handler_fails) (simp add: suggestAssignee_def Let_def)
        next
          case (Inr workloads)
          with given access members show ?thesis
            by (intro handler_stores [where
                  s = "AssigneeS (calculateAssigneeSuggestions title (b_description b)
                         (withDefault (b_skillsRequired b) []) workloads)"])
              (simp add: suggestAssignee_def Let_def, simp_all)
        qed
      qed
    qed
  qed
qed

lemma breakdownTask_runs:
  "failsBeforeInsert (\<lambda>d. breakdownTask d clock rnd userId b tbl) db tbl \<or>
   submitsOneRow (\<lambda>d. breakdownTask d clock rnd userId b tbl) db userId ''task_breakdown''
     tbl"
proof (cases "b_title b")
  case None
  then show ?thesis
    by (intro handler_fails) (simp add: breakdownTask_def Let_def)
next
  case (Some title)
  show ?thesis
  proof (cases "title = []")
    case True
    with Some show ?thesis
      by (intro handler_fails) (simp add: breakdownTask_def Let_def)
  next
    case False
    define access where "access =
      (case b_projectId b of
         None \<Rightarrow> Inr ()
       | Some pid \<Rightarrow> if pid = [] then Inr () else checkAccess db pid userId)"
    have acc: "(case b_projectId b of
         None \<Rightarrow> Inr ()
       | Some pid \<Rightarrow>
           if pid = [] then Inr ()
           else checkAccess (db\<lparr>insertSuggestion := ins\<rparr>) pid userId) = access"
      for ins
      by (simp add: access_def split: option.split)
    show ?thesis
    proof (cases access)
      case (Inl e)
      with Some False show ?thesis
        by (intro handler_fails) (simp add: breakdownTask_def Let_def acc)
    next
      case accessOk: (Inr u)
      show ?thesis
      proof (cases "similarTasksOf db userId")
        case (Inl e)
        with Some False accessOk show ?thesis
          by (intro handler_fails) (simp add: breakdownTask_def Let_def acc)
      next
        case (Inr similarTasks)
        with Some False accessOk show ?thesis
          by (intro handler_stores [where
                s = "BreakdownS (generateTaskBreakdown rnd title (b_description b)
                       (withDefault (b_complexity b) ''medium''))"])
            (simp add: breakdownTask_def Let_def acc, simp_all)
      qed
    qed
  qed
qed

lemma atomicInsert_rejected:
  assumes "atomicInsert ins" and "ins tbl r = (Inl e, tbl')"
  shows "tbl' = tbl"
proof -
  note assms(1) [unfolded atomicInsert_def, THEN spec, THEN spec, of tbl r]
  with assms(2) show ?thesis by simp
qed

lemma atomicInsert_accepted:
  assumes "atomicInsert ins" and "ins tbl r = (Inr rows, tbl')"
  shows "\<exists>row. rows = [row] \<and> tbl' = tbl @ [row] \<and> storedAs row r"
proof -
  note assms(1) [unfolded atomicInsert_def, THEN spec, THEN spec, of tbl r]
  with assms(2) show ?thesis by simp
qed

lemma runs_recorded:
  assumes "failsBeforeInsert handler db tbl \<or> submitsOneRow handler db userId kind tbl"
    and "atomicInsert (insertSuggestion db)"
  shows "recorded tbl (handler db)"
  using assms(1)
proof
  assume "failsBeforeInsert handler db tbl"
  then obtain e where "handler (db\<lparr>insertSuggestion := insertSuggestion db\<rparr>) = (Inl e, tbl)"
    unfolding failsBeforeInsert_def by blast
  then show ?thesis
    by (simp add: recorded_def)
next
  assume "submitsOneRow handler db userId kind tbl"
  then obtain r s c where pay: "payload (ins_content r) = s"
    and every: "\<forall>ins.
        case ins tbl r of
          (Inl e, tbl') \<Rightarrow> handler (db\<lparr>insertSuggestion := ins\<rparr>) = (Inl e, tbl')
        | (Inr [], tbl') \<Rightarrow> (\<exists>e. handler (db\<lparr>insertSuggestion := ins\<rparr>) = (Inl e, tbl'))
        | (Inr (row # rest), tbl') \<Rightarrow>
            handler (db\<lparr>insertSuggestion := ins\<rparr>) =
              (Inr \<lparr> data = s, projectMemberCount = c, suggestionId = row_id row \<rparr>, tbl')"
    unfolding submitsOneRow_def by auto
  note one = every [THEN spec, of "insertSuggestion db"]
  show ?thesis
  proof (cases "insertSuggestion db tbl r")
    case (Pair res tbl')
    show ?thesis
    proof (cases res)
      case (Inl e)
      with Pair assms(2) have "tbl' = tbl"
        using atomicInsert_rejected by blast
      with Pair Inl one show ?thesis
        by (simp add: recorded_def)
    next
      case (Inr rows)
      with Pair assms(2) obtain row where "rows = [row]" "tbl' = tbl @ [row]" "storedAs row r"
        using atomicInsert_accepted by blast
      with Pair Inr one pay show ?thesis
        by (simp add: recorded_def storedAs_def)
    qed
  qed
qed

lemma runs_contract:
  assumes "failsBeforeInsert handler db tbl \<or> submitsOneRow handler db userId kind tbl"
  shows "persistsBeforeResponding handler db userId kind tbl"
  unfolding persistsBeforeResponding_def using assms runs_recorded [OF assms] by blast

text \<open>
  C1. Each of the four handlers (time estimate, priority, assignee ranking, task breakdown)
  keeps the audit contract \<^const>\<open>persistsBeforeResponding\<close>, on every database, request
  and table. Either it fails before it touches the table, or it makes exactly one insert,
  of a row of the user that carries the suggestion, and ends as that insert decides: when
  the insert is rejected, the handler ends with the error of the insert, gives no response
  and leaves the table as the insert left it; it responds only when the insert returned a
  row, with the id of that row and the suggestion the row carries. The insert being atomic,
  a response comes with exactly one row appended and an error with the table unchanged.
\<close>

theorem handlers_persist_before_responding:
  "persistsBeforeResponding (\<lambda>d. estimateTime d clock userId b tbl)
     db userId ''time_estimation'' tbl \<and>
   persistsBeforeResponding (\<lambda>d. suggestPriority d clock userId b tbl)
     db userId ''priority'' tbl \<and>
   persistsBeforeResponding (\<lambda>d. suggestAssignee d clock userId b tbl)
     db userId ''assignee'' tbl \<and>
   persistsBeforeResponding (\<lambda>d. breakdownTask d clock rnd userId b tbl)
     db userId ''task_breakdown'' tbl"
  by (intro conjI runs_contract estimateTime_runs suggestPriority_runs suggestAssignee_runs
      breakdownTask_runs)

theorem handlers_persist_before_responding_witness:
  "atomicInsert appendRow \<and>
   (\<exists>resp row. suggestPriority (sampleDb appendRow) (\<lambda>n. 0) ''u1'' sampleBody []
                  = (Inr resp, [row])) \<and>
   recorded [] (suggestPriority (sampleDb appendRow) (\<lambda>n. 0) ''u1'' sampleBody []) \<and>
   suggestPriority (sampleDb rejectRow) (\<lambda>n. 0) ''u1'' sampleBody []
     = (Inl (DbError ''connection terminated''), [])"
proof -
  let ?h = "\<lambda>d. suggestPriority d (\<lambda>n. 0) ''u1'' sampleBody []"
  have atomic: "atomicInsert appendRow"
    by (simp add: atomicInsert_def appendRow_def storedAs_def Let_def)
  have ins_ok: "insertSuggestion (sampleDb appendRow) = appendRow"
    by (simp add: sampleDb_def)
  have swap: "(sampleDb appendRow)\<lparr>insertSuggestion := ins\<rparr> = sampleDb ins" for ins
    by (simp add: sampleDb_def)
  have ok: "\<exists>resp row. ?h (sampleDb appendRow) = (Inr resp, [row])"
    by (simp add: suggestPriority_def sampleDb_def sampleBody_def checkAccess_def respond_def
        appendRow_def orNull_def truthy_def Let_def)
  note contract = handlers_persist_before_responding
    [where db = "sampleDb appendRow" and clock = "\<lambda>n. 0" and userId = "''u1''"
       and b = sampleBody and tbl = "[]", THEN conjunct2, THEN conjunct1,
     unfolded persistsBeforeResponding_def ins_ok]
  from contract atomic have rec: "recorded [] (?h (sampleDb appendRow))"
    by blast
  have "\<not> failsBeforeInsert ?h (sampleDb appendRow) []"
  proof
    assume "failsBeforeInsert ?h (sampleDb appendRow) []"
    then obtain e where "?h ((sampleDb appendRow)\<lparr>insertSuggestion := appendRow\<rparr>) = (Inl e, [])"
      unfolding failsBeforeInsert_def by blast
    with ok show False
      unfolding swap by simp
  qed
  with contract have "submitsOneRow ?h (sampleDb appendRow) ''u1'' ''priority'' []"
    by blast
  then obtain r s c where every: "\<forall>ins.
        case ins [] r of
          (Inl e, tbl') \<Rightarrow> ?h ((sampleDb appendRow)\<lparr>insertSuggestion := ins\<rparr>) = (Inl e, tbl')
        | (Inr [], tbl') \<Rightarrow>
            (\<exists>e. ?h ((sampleDb appendRow)\<lparr>insertSuggestion := ins\<rparr>) = (Inl e, tbl'))
        | (Inr (row # rest), tbl') \<Rightarrow>
            ?h ((sampleDb appendRow)\<lparr>insertSuggestion := ins\<rparr>) =
              (Inr \<lparr> data = s, projectMemberCount = c, suggestionId = row_id row \<rparr>, tbl')"
    unfolding submitsOneRow_def by auto
  from every [THEN spec, of rejectRow]
  have rejected: "?h (sampleDb rejectRow) = (Inl (DbError ''connection terminated''), [])"
    unfolding swap by (simp add: rejectRow_def)
  from atomic ok rec rejected show ?thesis
    by blast
qed

end
